theory Spec2Isabelle
  imports Complex_Main
begin

section \<open>Python values\<close>

text \<open>
  The client works on decoded JSON: \<^verbatim>\<open>response.json()\<close> yields \<^verbatim>\<open>None\<close>, booleans,
  integers, floats, strings, lists and dicts with string keys. A float is a finite value,
  kept as the rational number it denotes, an infinity or NaN; \<open>0.0\<close> and \<open>-0.0\<close> compare
  equal and are both \<open>Finite 0\<close>. The client only compares floats, so the rounding of
  binary64 arithmetic plays no part.
\<close>

datatype pyfloat = Finite rat | PosInf | NegInf | NaN

datatype pyval =
    PNone
  | PBool bool
  | PInt int
  | PFloat pyfloat
  | PStr string
  | PList "pyval list"
  | PDict "(string \<times> pyval) list"
  \<comment> \<open>a dict is read through \<open>map_of\<close>: each key is bound once\<close>

text \<open>\<^verbatim>\<open>a <= b\<close> on floats: every comparison with NaN is false.\<close>

fun float_le :: "pyfloat \<Rightarrow> pyfloat \<Rightarrow> bool" where
  "float_le NaN _ = False"
| "float_le _ NaN = False"
| "float_le NegInf _ = True"
| "float_le _ PosInf = True"
| "float_le (Finite a) (Finite b) = (a \<le> b)"
| "float_le _ _ = False"

text \<open>
  An f-string is kept as its parts: \<open>Lit s\<close> is literal text, \<open>Fmt v\<close> is \<^verbatim>\<open>{v}\<close>,
  the text \<^verbatim>\<open>str(v)\<close>.
\<close>

datatype fpart = Lit string | Fmt pyval

datatype error =
    Exception "fpart list"   \<comment> \<open>\<^verbatim>\<open>raise Exception(f"...")\<close> with that message\<close>
  | KeyError string
  | TypeError
  | AttributeError
  | RequestException         \<comment> \<open>raised by \<^verbatim>\<open>session.post\<close>, \<^verbatim>\<open>raise_for_status\<close> or \<^verbatim>\<open>response.json\<close>\<close>

text \<open>\<^verbatim>\<open>not v\<close> is \<open>\<not> truthy v\<close>.\<close>

fun truthy :: "pyval \<Rightarrow> bool" where
  "truthy PNone = False"
| "truthy (PBool b) = b"
| "truthy (PInt n) = (n \<noteq> 0)"
| "truthy (PFloat x) = (x \<noteq> Finite 0)"
| "truthy (PStr s) = (s \<noteq> [])"
| "truthy (PList xs) = (xs \<noteq> [])"
| "truthy (PDict kvs) = (kvs \<noteq> [])"

text \<open>\<^verbatim>\<open>v == k\<close> for an integer literal \<open>k\<close>: \<^verbatim>\<open>True == 1\<close> and \<^verbatim>\<open>1.0 == 1\<close> hold in Python.\<close>

fun eq_int :: "pyval \<Rightarrow> int \<Rightarrow> bool" where
  "eq_int (PInt n) k = (n = k)"
| "eq_int (PBool b) k = ((if b then 1 else 0) = k)"
| "eq_int (PFloat (Finite q)) k = (q = of_int k)"
| "eq_int _ k = False"

text \<open>\<^verbatim>\<open>v[key]\<close> with a string key: only a dict can be indexed by a string.\<close>

fun getitem :: "pyval \<Rightarrow> string \<Rightarrow> error + pyval" where
  "getitem (PDict kvs) k = (case map_of kvs k of None \<Rightarrow> Inl (KeyError k) | Some v \<Rightarrow> Inr v)"
| "getitem _ k = Inl TypeError"

text \<open>\<^verbatim>\<open>v.get(key, default)\<close>: only a dict has the method.\<close>

fun dict_get :: "pyval \<Rightarrow> string \<Rightarrow> pyval \<Rightarrow> error + pyval" where
  "dict_get (PDict kvs) k d = Inr (case map_of kvs k of None \<Rightarrow> d | Some v \<Rightarrow> v)"
| "dict_get _ k d = Inl AttributeError"

text \<open>\<^verbatim>\<open>needle in hay\<close> on strings is the substring test.\<close>

fun starts_with :: "string \<Rightarrow> string \<Rightarrow> bool" where
  "starts_with [] hay = True"
| "starts_with (c # cs) [] = False"
| "starts_with (c # cs) (h # hs) = (c = h \<and> starts_with cs hs)"

fun is_substring :: "string \<Rightarrow> string \<Rightarrow> bool" where
  "is_substring needle [] = (needle = [])"
| "is_substring needle (h # hs) = (starts_with needle (h # hs) \<or> is_substring needle hs)"

text \<open>
  \<^verbatim>\<open>key in v\<close> for a string \<open>key\<close>: a key of a dict, an element of a list, a
  substring of a string; anything else is not iterable.
\<close>

fun contains :: "string \<Rightarrow> pyval \<Rightarrow> error + bool" where
  "contains k (PDict kvs) = Inr (map_of kvs k \<noteq> None)"
| "contains k (PList xs) = Inr (PStr k \<in> set xs)"
| "contains k (PStr s) = Inr (is_substring k s)"
| "contains k _ = Inl TypeError"

text \<open>\<^verbatim>\<open>for x in v\<close>: a list gives its elements, a dict its keys, a string its characters.\<close>

fun py_iter :: "pyval \<Rightarrow> error + pyval list" where
  "py_iter (PList xs) = Inr xs"
| "py_iter (PDict kvs) = Inr (map (\<lambda>kv. PStr (fst kv)) kvs)"
| "py_iter (PStr s) = Inr (map (\<lambda>c. PStr [c]) s)"
| "py_iter _ = Inl TypeError"

text \<open>A list comprehension \<^verbatim>\<open>[f(x) for x in xs]\<close> stops at the first exception.\<close>

fun comprehension :: "('a \<Rightarrow> error + 'b) \<Rightarrow> 'a list \<Rightarrow> error + 'b list" where
  "comprehension f [] = Inr []"
| "comprehension f (x # xs) =
     (case f x of
        Inl e \<Rightarrow> Inl e
      | Inr y \<Rightarrow> (case comprehension f xs of Inl e \<Rightarrow> Inl e | Inr ys \<Rightarrow> Inr (y # ys)))"

text \<open>\<^verbatim>\<open>kwargs.get(name, default)\<close>: a dataclass field takes its keyword or its default.\<close>

definition field_or :: "(string \<rightharpoonup> pyval) \<Rightarrow> string \<Rightarrow> pyval \<Rightarrow> pyval" where
  "field_or kwargs name dflt = (case kwargs name of None \<Rightarrow> dflt | Some v \<Rightarrow> v)"

text \<open>
  \<^verbatim>\<open>float(s)\<close> on a string is a builtin of the language, not code of the client: the
  functions that call it take it as the parameter \<open>pf\<close>, \<open>None\<close> standing for
  \<^verbatim>\<open>ValueError\<close>. \<open>plain_decimal\<close> is the instance used on concrete inputs: it reads
  the literals \<^verbatim>\<open>[+-]digits[.digits]\<close> with their exact decimal value and rejects
  every other text.
\<close>

definition is_digit :: "char \<Rightarrow> bool" where
  "is_digit c = (c \<in> set ''0123456789'')"

definition digits_value :: "string \<Rightarrow> nat" where
  "digits_value ds = foldl (\<lambda>n c. 10 * n + (of_char c - 48)) 0 ds"

definition unsigned_decimal :: "string \<Rightarrow> rat option" where
  "unsigned_decimal s =
     (let ip = takeWhile is_digit s; rest = dropWhile is_digit s
      in case rest of
           [] \<Rightarrow> (if ip = [] then None else Some (of_nat (digits_value ip)))
         | c # fp \<Rightarrow>
             (if c = CHR ''.'' \<and> list_all is_digit fp \<and> (ip \<noteq> [] \<or> fp \<noteq> [])
              then Some (of_nat (digits_value ip) + of_nat (digits_value fp) / 10 ^ length fp)
              else None))"

definition plain_decimal :: "string \<Rightarrow> pyfloat option" where
  "plain_decimal s =
     (case s of
        [] \<Rightarrow> None
      | c # cs \<Rightarrow>
          (if c = CHR ''-'' then map_option (\<lambda>q. Finite (- q)) (unsigned_decimal cs)
           else if c = CHR ''+'' then map_option Finite (unsigned_decimal cs)
           else map_option Finite (unsigned_decimal s)))"

section \<open>The records of \<^verbatim>\<open>neohub.py\<close>\<close>

text \<open>
  The dataclass annotations are not enforced at run time: a field holds whatever the
  response held, so every field is a \<open>pyval\<close>.
\<close>

record Device =
  address :: pyval
  deviceid :: pyval
  devicename :: pyval
  hub_type :: pyval
  online :: pyval
  type :: pyval
  version :: pyval
  share_name :: pyval
  share_id :: pyval
  tempformat :: pyval
  timezone :: pyval
  away :: pyval
  holiday :: pyval
  holidayend :: pyval

definition Device_annotations :: "string list" where
  "Device_annotations =
     [''address'', ''deviceid'', ''devicename'', ''hub_type'', ''online'', ''type'',
      ''version'', ''share_name'', ''share_id'', ''tempformat'', ''timezone'', ''away'',
      ''holiday'', ''holidayend'']"

text \<open>\<^verbatim>\<open>Device(**kwargs)\<close>: every field defaults to \<^verbatim>\<open>None\<close>.\<close>

definition Device_init :: "(string \<rightharpoonup> pyval) \<Rightarrow> Device" where
  "Device_init kwargs =
     \<lparr> address = field_or kwargs ''address'' PNone,
       deviceid = field_or kwargs ''deviceid'' PNone,
       devicename = field_or kwargs ''devicename'' PNone,
       hub_type = field_or kwargs ''hub_type'' PNone,
       online = field_or kwargs ''online'' PNone,
       type = field_or kwargs ''type'' PNone,
       version = field_or kwargs ''version'' PNone,
       share_name = field_or kwargs ''share_name'' PNone,
       share_id = field_or kwargs ''share_id'' PNone,
       tempformat = field_or kwargs ''tempformat'' PNone,
       timezone = field_or kwargs ''timezone'' PNone,
       away = field_or kwargs ''away'' PNone,
       holiday = field_or kwargs ''holiday'' PNone,
       holidayend = field_or kwargs ''holidayend'' PNone \<rparr>"

text \<open>
  \<^verbatim>\<open>Device.from_dict\<close>: \<^verbatim>\<open>data.items()\<close> raises \<^verbatim>\<open>AttributeError\<close> unless \<open>data\<close> is
  a dict; the keys outside the annotations are dropped.
\<close>

definition Device_from_dict :: "pyval \<Rightarrow> error + Device" where
  "Device_from_dict data =
     (case data of
        PDict kvs \<Rightarrow>
          (let known_fields = map_of kvs |` set Device_annotations
           in Inr (Device_init known_fields))
      | _ \<Rightarrow> Inl AttributeError)"

record LiveInfoDevice =
  HEAT_ON :: pyval
  CURRENT_FLOOR_TEMPERATURE :: pyval
  STANDBY :: pyval
  MANUAL_OFF :: pyval
  TIMER_ON :: pyval
  WINDOW_OPEN :: pyval
  AVAILABLE_MODES :: pyval
  WRITE_COUNT :: pyval
  FLOOR_LIMIT :: pyval
  DATE :: pyval
  HEAT_MODE :: pyval
  OFFLINE :: pyval
  HOLIDAY :: pyval
  MODELOCK :: pyval
  DEVICE_ID :: pyval
  RECENT_TEMPS :: pyval
  COOL_ON :: pyval
  RELATIVE_HUMIDITY :: pyval
  HOLD_COOL :: pyval
  AWAY :: pyval
  TIMECLOCK :: pyval
  TEMPORARY_SET_FLAG :: pyval
  PRG_TIMER :: pyval
  LOCK :: pyval
  MODULATION_LEVEL :: pyval
  HC_MODE :: pyval
  SET_TEMP :: pyval
  LOW_BATTERY :: pyval
  COOL_TEMP :: pyval
  HOLD_ON :: pyval
  HOLD_OFF :: pyval
  ZONE_NAME :: pyval
  HOLD_TIME :: pyval
  COOL_MODE :: pyval
  HOLD_TEMP :: pyval
  PREHEAT_ACTIVE :: pyval
  ACTIVE_PROFILE :: pyval
  SWITCH_DELAY_LEFT :: pyval
  PIN_NUMBER :: pyval
  FAN_SPEED :: pyval
  ACTUAL_TEMP :: pyval
  TIME :: pyval
  ACTIVE_LEVEL :: pyval
  FAN_CONTROL :: pyval
  PRG_TEMP :: pyval
  THERMOSTAT :: pyval

definition LiveInfoDevice_annotations :: "string list" where
  "LiveInfoDevice_annotations =
     [''HEAT_ON'', ''CURRENT_FLOOR_TEMPERATURE'', ''STANDBY'', ''MANUAL_OFF'', ''TIMER_ON'',
      ''WINDOW_OPEN'', ''AVAILABLE_MODES'', ''WRITE_COUNT'', ''FLOOR_LIMIT'', ''DATE'',
      ''HEAT_MODE'', ''OFFLINE'', ''HOLIDAY'', ''MODELOCK'', ''DEVICE_ID'', ''RECENT_TEMPS'',
      ''COOL_ON'', ''RELATIVE_HUMIDITY'', ''HOLD_COOL'', ''AWAY'', ''TIMECLOCK'',
      ''TEMPORARY_SET_FLAG'', ''PRG_TIMER'', ''LOCK'', ''MODULATION_LEVEL'', ''HC_MODE'',
      ''SET_TEMP'', ''LOW_BATTERY'', ''COOL_TEMP'', ''HOLD_ON'', ''HOLD_OFF'', ''ZONE_NAME'',
      ''HOLD_TIME'', ''COOL_MODE'', ''HOLD_TEMP'', ''PREHEAT_ACTIVE'', ''ACTIVE_PROFILE'',
      ''SWITCH_DELAY_LEFT'', ''PIN_NUMBER'', ''FAN_SPEED'', ''ACTUAL_TEMP'', ''TIME'',
      ''ACTIVE_LEVEL'', ''FAN_CONTROL'', ''PRG_TEMP'', ''THERMOSTAT'']"

text \<open>\<^verbatim>\<open>LiveInfoDevice(**kwargs)\<close> with the defaults of lines 37 to 82.\<close>

definition LiveInfoDevice_init :: "(string \<rightharpoonup> pyval) \<Rightarrow> LiveInfoDevice" where
  "LiveInfoDevice_init kwargs =
     \<lparr> HEAT_ON = field_or kwargs ''HEAT_ON'' (PBool False),
       CURRENT_FLOOR_TEMPERATURE = field_or kwargs ''CURRENT_FLOOR_TEMPERATURE'' (PFloat (Finite 0)),
       STANDBY = field_or kwargs ''STANDBY'' (PBool False),
       MANUAL_OFF = field_or kwargs ''MANUAL_OFF'' (PBool False),
       TIMER_ON = field_or kwargs ''TIMER_ON'' (PBool False),
       WINDOW_OPEN = field_or kwargs ''WINDOW_OPEN'' (PBool False),
       AVAILABLE_MODES = field_or kwargs ''AVAILABLE_MODES'' PNone,
       WRITE_COUNT = field_or kwargs ''WRITE_COUNT'' (PInt 0),
       FLOOR_LIMIT = field_or kwargs ''FLOOR_LIMIT'' (PBool False),
       DATE = field_or kwargs ''DATE'' PNone,
       HEAT_MODE = field_or kwargs ''HEAT_MODE'' (PBool False),
       OFFLINE = field_or kwargs ''OFFLINE'' (PBool False),
       HOLIDAY = field_or kwargs ''HOLIDAY'' (PBool False),
       MODELOCK = field_or kwargs ''MODELOCK'' (PBool False),
       DEVICE_ID = field_or kwargs ''DEVICE_ID'' PNone,
       RECENT_TEMPS = field_or kwargs ''RECENT_TEMPS'' PNone,
       COOL_ON = field_or kwargs ''COOL_ON'' (PBool False),
       RELATIVE_HUMIDITY = field_or kwargs ''RELATIVE_HUMIDITY'' (PInt 0),
       HOLD_COOL = field_or kwargs ''HOLD_COOL'' (PFloat (Finite 0)),
       AWAY = field_or kwargs ''AWAY'' (PBool False),
       TIMECLOCK = field_or kwargs ''TIMECLOCK'' (PBool False),
       TEMPORARY_SET_FLAG = field_or kwargs ''TEMPORARY_SET_FLAG'' (PBool False),
       PRG_TIMER = field_or kwargs ''PRG_TIMER'' (PBool False),
       LOCK = field_or kwargs ''LOCK'' (PBool False),
       MODULATION_LEVEL = field_or kwargs ''MODULATION_LEVEL'' (PInt 0),
       HC_MODE = field_or kwargs ''HC_MODE'' PNone,
       SET_TEMP = field_or kwargs ''SET_TEMP'' PNone,
       LOW_BATTERY = field_or kwargs ''LOW_BATTERY'' (PBool False),
       COOL_TEMP = field_or kwargs ''COOL_TEMP'' (PFloat (Finite 0)),
       HOLD_ON = field_or kwargs ''HOLD_ON'' (PBool False),
       HOLD_OFF = field_or kwargs ''HOLD_OFF'' (PBool False),
       ZONE_NAME = field_or kwargs ''ZONE_NAME'' PNone,
       HOLD_TIME = field_or kwargs ''HOLD_TIME'' PNone,
       COOL_MODE = field_or kwargs ''COOL_MODE'' (PBool False),
       HOLD_TEMP = field_or kwargs ''HOLD_TEMP'' (PFloat (Finite 0)),
       PREHEAT_ACTIVE = field_or kwargs ''PREHEAT_ACTIVE'' (PBool False),
       ACTIVE_PROFILE = field_or kwargs ''ACTIVE_PROFILE'' (PInt 0),
       SWITCH_DELAY_LEFT = field_or kwargs ''SWITCH_DELAY_LEFT'' PNone,
       PIN_NUMBER = field_or kwargs ''PIN_NUMBER'' PNone,
       FAN_SPEED = field_or kwargs ''FAN_SPEED'' PNone,
       ACTUAL_TEMP = field_or kwargs ''ACTUAL_TEMP'' PNone,
       TIME = field_or kwargs ''TIME'' PNone,
       ACTIVE_LEVEL = field_or kwargs ''ACTIVE_LEVEL'' (PInt 0),
       FAN_CONTROL = field_or kwargs ''FAN_CONTROL'' PNone,
       PRG_TEMP = field_or kwargs ''PRG_TEMP'' (PFloat (Finite 0)),
       THERMOSTAT = field_or kwargs ''THERMOSTAT'' PNone \<rparr>"

text \<open>\<^verbatim>\<open>__post_init__\<close>: the two list fields are never left \<^verbatim>\<open>None\<close>.\<close>

definition post_init :: "LiveInfoDevice \<Rightarrow> LiveInfoDevice" where
  "post_init self =
     (let self1 = (if AVAILABLE_MODES self = PNone
                   then self\<lparr>AVAILABLE_MODES := PList []\<rparr> else self)
      in if RECENT_TEMPS self1 = PNone then self1\<lparr>RECENT_TEMPS := PList []\<rparr> else self1)"

definition float_fields :: "string list" where
  "float_fields =
     [''CURRENT_FLOOR_TEMPERATURE'', ''HOLD_COOL'', ''COOL_TEMP'', ''HOLD_TEMP'', ''PRG_TEMP'']"

text \<open>
  The body of the loop of lines 96 to 101: a field that is present and holds a string
  is replaced by its float, or by \<open>0.0\<close> when \<^verbatim>\<open>float\<close> raises.
\<close>

definition coerce_float ::
  "(string \<Rightarrow> pyfloat option) \<Rightarrow> string \<Rightarrow> (string \<rightharpoonup> pyval) \<Rightarrow> (string \<rightharpoonup> pyval)" where
  "coerce_float pf field known_fields =
     (case known_fields field of
        Some (PStr s) \<Rightarrow>
          known_fields(field \<mapsto> PFloat (case pf s of Some x \<Rightarrow> x | None \<Rightarrow> Finite 0))
      | _ \<Rightarrow> known_fields)"

text \<open>Lines 103 to 107: \<open>RECENT_TEMPS\<close> is wrapped when it is a string and set to \<open>[]\<close> when absent.\<close>

definition ensure_recent_temps :: "(string \<rightharpoonup> pyval) \<Rightarrow> (string \<rightharpoonup> pyval)" where
  "ensure_recent_temps known_fields =
     (case known_fields ''RECENT_TEMPS'' of
        Some (PStr s) \<Rightarrow> known_fields(''RECENT_TEMPS'' \<mapsto> PList [PStr s])
      | Some _ \<Rightarrow> known_fields
      | None \<Rightarrow> known_fields(''RECENT_TEMPS'' \<mapsto> PList []))"

text \<open>Lines 109 to 111: \<open>AVAILABLE_MODES\<close> is set to \<open>[]\<close> when absent, and only then.\<close>

definition ensure_available_modes :: "(string \<rightharpoonup> pyval) \<Rightarrow> (string \<rightharpoonup> pyval)" where
  "ensure_available_modes known_fields =
     (case known_fields ''AVAILABLE_MODES'' of
        None \<Rightarrow> known_fields(''AVAILABLE_MODES'' \<mapsto> PList [])
      | Some _ \<Rightarrow> known_fields)"

text \<open>
  \<^verbatim>\<open>LiveInfoDevice.from_dict\<close>: \<^verbatim>\<open>data.items()\<close> raises \<^verbatim>\<open>AttributeError\<close> unless
  \<open>data\<close> is a dict; nothing after it can raise.
\<close>

definition LiveInfoDevice_from_dict ::
  "(string \<Rightarrow> pyfloat option) \<Rightarrow> pyval \<Rightarrow> error + LiveInfoDevice" where
  "LiveInfoDevice_from_dict pf data =
     (case data of
        PDict kvs \<Rightarrow>
          (let known_fields = map_of kvs |` set LiveInfoDevice_annotations;
               kf1 = fold (coerce_float pf) float_fields known_fields;
               kf2 = ensure_recent_temps kf1;
               kf3 = ensure_available_modes kf2
           in Inr (post_init (LiveInfoDevice_init kf3)))
      | _ \<Rightarrow> Inl AttributeError)"

section \<open>The classifier and the validator of \<^verbatim>\<open>app.py\<close>\<close>

text \<open>
  \<^verbatim>\<open>get_device_type\<close>: \<^verbatim>\<open>or\<close> evaluates its right operand only when the left one is
  false, and \<^verbatim>\<open>"Socket" in zone_data.ZONE_NAME\<close> raises \<^verbatim>\<open>TypeError\<close> on a name that
  is not iterable.
\<close>

fun isinstance_str :: "pyval \<Rightarrow> bool" where
  "isinstance_str (PStr s) = True"
| "isinstance_str _ = False"

definition get_device_type :: "LiveInfoDevice \<Rightarrow> error + string" where
  "get_device_type zone_data =
     (if isinstance_str (ACTUAL_TEMP zone_data) \<and> ACTUAL_TEMP zone_data = PStr ''255.255''
      then Inr ''SOCKET''
      else (case contains ''Socket'' (ZONE_NAME zone_data) of
              Inl e \<Rightarrow> Inl e
            | Inr True \<Rightarrow> Inr ''SOCKET''
            | Inr False \<Rightarrow> Inr ''THERMOSTAT''))"

text \<open>
  \<^verbatim>\<open>is_valid_temperature\<close>, on a \<^verbatim>\<open>temp_str: str\<close> as annotated: \<^verbatim>\<open>float\<close> of a string
  raises nothing but \<^verbatim>\<open>ValueError\<close>, which the \<^verbatim>\<open>except\<close> turns into \<^verbatim>\<open>False\<close>. The
  caller passes \<open>device_type\<close>; the source's default for it is \<^verbatim>\<open>"THERMOSTAT"\<close>.
\<close>

definition is_valid_temperature :: "(string \<Rightarrow> pyfloat option) \<Rightarrow> string \<Rightarrow> string \<Rightarrow> bool" where
  "is_valid_temperature pf temp_str device_type =
     (if device_type = ''SOCKET'' then True
      else (case pf temp_str of
              None \<Rightarrow> False
            | Some temp \<Rightarrow> float_le (Finite 0) temp \<and> float_le temp (Finite 50)))"

section \<open>The client of \<^verbatim>\<open>neohub.py\<close>\<close>

definition DEFAULT_URL :: string where
  "DEFAULT_URL = ''https://neohub.co.uk/''"

definition USER_LOGIN_ENDPOINT :: string where
  "USER_LOGIN_ENDPOINT = ''hm_user_login''"

definition CACHE_VALUE_ENDPOINT :: string where
  "CACHE_VALUE_ENDPOINT = ''hm_cache_value''"

definition DEFAULT_CACHE_VALUE_REQUEST :: string where
  "DEFAULT_CACHE_VALUE_REQUEST =
     ''engineers,comfort,profile0,timeclock0,system,device_list,timeclock,live_info''"

text \<open>
  A form field is a value handed to \<^verbatim>\<open>session.post\<close> as it is (\<open>Raw\<close>) or the text
  \<^verbatim>\<open>str(v)\<close> that the client builds itself (\<open>StrOf\<close>). A request is the URL and the
  form. The network is the answer to a request: the decoded JSON body, or the exception
  of \<^verbatim>\<open>_form_post_request\<close>.
\<close>

datatype form_value = Raw pyval | StrOf pyval

type_synonym request = "string \<times> (string \<times> form_value) list"

type_synonym network = "request \<Rightarrow> error + pyval"

text \<open>
  \<open>session\<close> stands for the \<^verbatim>\<open>requests.Session\<close>: the requests posted through it so
  far, the latest last.
\<close>

record NeoHub =
  username :: string
  password :: string
  url :: string
  token :: pyval
  session :: "request list"

text \<open>\<^verbatim>\<open>__init__\<close>: \<^verbatim>\<open>url or DEFAULT_URL\<close> takes the default for \<^verbatim>\<open>None\<close> and for \<^verbatim>\<open>""\<close>.\<close>

definition NeoHub_init :: "string \<Rightarrow> string \<Rightarrow> string option \<Rightarrow> NeoHub" where
  "NeoHub_init user pass url_opt =
     \<lparr> username = user,
       password = pass,
       url = (case url_opt of None \<Rightarrow> DEFAULT_URL | Some u \<Rightarrow> if u = [] then DEFAULT_URL else u),
       token = PNone,
       session = [] \<rparr>"

definition form_post_request ::
  "network \<Rightarrow> NeoHub \<Rightarrow> string \<Rightarrow> (string \<times> form_value) list \<Rightarrow> (error + pyval) \<times> NeoHub" where
  "form_post_request net self endpoint params =
     (let req = (url self @ endpoint, params)
      in (net req, self\<lparr>session := session self @ [req]\<rparr>))"

text \<open>The guard that opens every authenticated method: \<^verbatim>\<open>if not self.token: raise ...\<close>.\<close>

definition not_logged_in :: error where
  "not_logged_in = Exception [Lit ''Not logged in. Call login() first'']"

definition login :: "network \<Rightarrow> NeoHub \<Rightarrow> (error + Device list) \<times> NeoHub" where
  "login net self =
     (let params = [(''USERNAME'', Raw (PStr (username self))),
                    (''PASSWORD'', Raw (PStr (password self)))];
          posted = form_post_request net self USER_LOGIN_ENDPOINT params;
          self1 = snd posted
      in case fst posted of
           Inl e \<Rightarrow> (Inl e, self1)
         | Inr response \<Rightarrow>
             (case getitem response ''STATUS'' of
                Inl e \<Rightarrow> (Inl e, self1)
              | Inr status \<Rightarrow>
                  if \<not> eq_int status 1
                  then (Inl (Exception [Lit ''Login failed with status: '', Fmt status]), self1)
                  else (case getitem response ''TOKEN'' of
                          Inl e \<Rightarrow> (Inl e, self1)
                        | Inr tok \<Rightarrow>
                            (let self2 = self1\<lparr>token := tok\<rparr>
                             in case getitem response ''devices'' of
                                  Inl e \<Rightarrow> (Inl e, self2)
                                | Inr ds \<Rightarrow>
                                    (case py_iter ds of
                                       Inl e \<Rightarrow> (Inl e, self2)
                                     | Inr xs \<Rightarrow> (comprehension Device_from_dict xs, self2))))))"

text \<open>
  The loop of lines 157 to 161: a record that decodes is appended to \<open>devices\<close>, the
  exception of one that does not is printed and the loop goes on. The second component
  is what was printed: \<open>e\<close> stands for the line
  \<^verbatim>\<open>Warning: Failed to parse device data: {e}\<close>.
\<close>

definition parse_step ::
  "(string \<Rightarrow> pyfloat option) \<Rightarrow> pyval \<Rightarrow> LiveInfoDevice list \<times> error list
     \<Rightarrow> LiveInfoDevice list \<times> error list" where
  "parse_step pf device_data acc =
     (case LiveInfoDevice_from_dict pf device_data of
        Inr z \<Rightarrow> (fst acc @ [z], snd acc)
      | Inl e \<Rightarrow> (fst acc, snd acc @ [e]))"

text \<open>
  Lines 155 to 162. The result is \<open>None\<close> when the branch is not taken, and otherwise the
  list bound to \<^verbatim>\<open>response['CACHE_VALUE']['live_info']['devices']\<close>, with the printed
  warnings.
\<close>

definition convert_live_info ::
  "(string \<Rightarrow> pyfloat option) \<Rightarrow> pyval \<Rightarrow> error + (LiveInfoDevice list option \<times> error list)" where
  "convert_live_info pf response =
     (case contains ''CACHE_VALUE'' response of
        Inl e \<Rightarrow> Inl e
      | Inr False \<Rightarrow> Inr (None, [])
      | Inr True \<Rightarrow>
          (case getitem response ''CACHE_VALUE'' of
             Inl e \<Rightarrow> Inl e
           | Inr cv \<Rightarrow>
               (case contains ''live_info'' cv of
                  Inl e \<Rightarrow> Inl e
                | Inr False \<Rightarrow> Inr (None, [])
                | Inr True \<Rightarrow>
                    (case getitem cv ''live_info'' of
                       Inl e \<Rightarrow> Inl e
                     | Inr li \<Rightarrow>
                         (case dict_get li ''devices'' (PList []) of
                            Inl e \<Rightarrow> Inl e
                          | Inr ds \<Rightarrow>
                              (case py_iter ds of
                                 Inl e \<Rightarrow> Inl e
                               | Inr xs \<Rightarrow>
                                   (let done = fold (parse_step pf) xs ([], [])
                                    in Inr (Some (fst done), snd done))))))))"

text \<open>
  \<^verbatim>\<open>get_data\<close> returns the response dict with the decoded list put in place of the raw
  one: here the pair of the response as received and that list. The third component of
  the result is the standard output of the call.
\<close>

definition get_data ::
  "(string \<Rightarrow> pyfloat option) \<Rightarrow> network \<Rightarrow> NeoHub \<Rightarrow> string
     \<Rightarrow> (error + (pyval \<times> LiveInfoDevice list option)) \<times> NeoHub \<times> error list" where
  "get_data pf net self device_id =
     (if \<not> truthy (token self) then (Inl not_logged_in, self, [])
      else
        (let params = [(''cache_value'', Raw (PStr DEFAULT_CACHE_VALUE_REQUEST)),
                       (''device_id'', Raw (PStr device_id)),
                       (''token'', Raw (token self))];
             posted = form_post_request net self CACHE_VALUE_ENDPOINT params;
             self1 = snd posted
         in case fst posted of
              Inl e \<Rightarrow> (Inl e, self1, [])
            | Inr response \<Rightarrow>
                (case getitem response ''STATUS'' of
                   Inl e \<Rightarrow> (Inl e, self1, [])
                 | Inr status \<Rightarrow>
                     if \<not> (eq_int status 1 \<or> eq_int status 201)
                     then (Inl (Exception [Lit ''Unexpected status from getData: '', Fmt status]),
                           self1, [])
                     else (case convert_live_info pf response of
                             Inl e \<Rightarrow> (Inl e, self1, [])
                           | Inr conv \<Rightarrow> (Inr (response, fst conv), self1, snd conv)))))"

text \<open>
  The four command methods end alike: the response is returned when \<open>STATUS\<close> is 1, and
  otherwise the exception carries \<^verbatim>\<open>response.get('ERROR', 'Unknown error')\<close> after the
  method's own words.
\<close>

definition command_result :: "string \<Rightarrow> pyval \<Rightarrow> error + pyval" where
  "command_result what response =
     (case getitem response ''STATUS'' of
        Inl e \<Rightarrow> Inl e
      | Inr status \<Rightarrow>
          if \<not> eq_int status 1
          then (case dict_get response ''ERROR'' (PStr ''Unknown error'') of
                  Inl e \<Rightarrow> Inl e
                | Inr msg \<Rightarrow> Inl (Exception [Lit what, Fmt msg]))
          else Inr response)"

definition set_temperature ::
  "network \<Rightarrow> NeoHub \<Rightarrow> string \<Rightarrow> string \<Rightarrow> pyfloat \<Rightarrow> (error + pyval) \<times> NeoHub" where
  "set_temperature net self device_id zone_name temperature =
     (if \<not> truthy (token self) then (Inl not_logged_in, self)
      else
        (let params = [(''device_id'', Raw (PStr device_id)),
                       (''token'', Raw (token self)),
                       (''zone'', Raw (PStr zone_name)),
                       (''temperature'', StrOf (PFloat temperature))];
             posted = form_post_request net self ''hm_set_temp'' params
         in case fst posted of
              Inl e \<Rightarrow> (Inl e, snd posted)
            | Inr response \<Rightarrow>
                (command_result ''Failed to set temperature: '' response, snd posted)))"

text \<open>\<^verbatim>\<open>mode.upper()\<close>, on ASCII text.\<close>

definition upper_char :: "char \<Rightarrow> char" where
  "upper_char c =
     (let n = (of_char c :: nat) in if 97 \<le> n \<and> n \<le> 122 then char_of (n - 32) else c)"

definition upper :: "string \<Rightarrow> string" where
  "upper s = map upper_char s"

definition set_mode ::
  "network \<Rightarrow> NeoHub \<Rightarrow> string \<Rightarrow> string \<Rightarrow> string \<Rightarrow> (error + pyval) \<times> NeoHub" where
  "set_mode net self device_id zone_name mode =
     (if \<not> truthy (token self) then (Inl not_logged_in, self)
      else
        (let params = [(''device_id'', Raw (PStr device_id)),
                       (''token'', Raw (token self)),
                       (''zone'', Raw (PStr zone_name)),
                       (''mode'', Raw (PStr (upper mode)))];
             posted = form_post_request net self ''hm_set_mode'' params
         in case fst posted of
              Inl e \<Rightarrow> (Inl e, snd posted)
            | Inr response \<Rightarrow>
                (command_result ''Failed to set mode: '' response, snd posted)))"

definition set_away_mode ::
  "network \<Rightarrow> NeoHub \<Rightarrow> string \<Rightarrow> bool \<Rightarrow> (error + pyval) \<times> NeoHub" where
  "set_away_mode net self device_id enabled =
     (if \<not> truthy (token self) then (Inl not_logged_in, self)
      else
        (let params = [(''device_id'', Raw (PStr device_id)),
                       (''token'', Raw (token self)),
                       (''away'', Raw (PStr (if enabled then ''1'' else ''0'')))];
             posted = form_post_request net self ''hm_set_away'' params
         in case fst posted of
              Inl e \<Rightarrow> (Inl e, snd posted)
            | Inr response \<Rightarrow>
                (command_result ''Failed to set away mode: '' response, snd posted)))"

definition get_history ::
  "network \<Rightarrow> NeoHub \<Rightarrow> string \<Rightarrow> string \<Rightarrow> (error + pyval) \<times> NeoHub" where
  "get_history net self device_id zone_name =
     (if \<not> truthy (token self) then (Inl not_logged_in, self)
      else
        (let params = [(''device_id'', Raw (PStr device_id)),
                       (''token'', Raw (token self)),
                       (''zone'', Raw (PStr zone_name))];
             posted = form_post_request net self ''hm_get_history'' params
         in case fst posted of
              Inl e \<Rightarrow> (Inl e, snd posted)
            | Inr response \<Rightarrow>
                (command_result ''Failed to get history: '' response, snd posted)))"

text \<open>A server that answers every request with the same body.\<close>

definition answering :: "pyval \<Rightarrow> network" where
  "answering body = (\<lambda>req. Inr body)"

section \<open>Example inputs\<close>

text \<open>A client that has not logged in, and one that holds the token \<^verbatim>\<open>"abc"\<close>.\<close>

definition example_client :: NeoHub where
  "example_client = NeoHub_init ''user'' ''secret'' None"

definition logged_in_client :: NeoHub where
  "logged_in_client = example_client\<lparr>token := PStr ''abc''\<rparr>"

text \<open>
  A data response with status 201 and two zone records: a well-formed one and a string
  where a record should be.
\<close>

definition zone_response :: pyval where
  "zone_response =
     PDict [(''STATUS'', PInt 201),
            (''CACHE_VALUE'',
             PDict [(''live_info'',
                     PDict [(''devices'',
                             PList [PDict [(''ZONE_NAME'', PStr ''Living Room''),
                                           (''ACTUAL_TEMP'', PStr ''21.5'')],
                                    PStr ''garbage''])])])]"

section \<open>What the specification expects\<close>

text \<open>
  The value a numeric field must have after decoding, in the words of the specification:
  \<open>0.0\<close> when the field is absent, the parsed number when it is a string that parses,
  \<open>0.0\<close> when it is a string that does not; any other value is kept.
\<close>

definition expected_numeric :: "(string \<Rightarrow> pyfloat option) \<Rightarrow> pyval option \<Rightarrow> pyval" where
  "expected_numeric pf raw =
     (case raw of
        None \<Rightarrow> PFloat (Finite 0)
      | Some (PStr s) \<Rightarrow> (case pf s of Some x \<Rightarrow> PFloat x | None \<Rightarrow> PFloat (Finite 0))
      | Some v \<Rightarrow> v)"

text \<open>What one pass of the loop of lines 96 to 101 leaves under a key.\<close>

definition coerced :: "(string \<Rightarrow> pyfloat option) \<Rightarrow> pyval option \<Rightarrow> pyval option" where
  "coerced pf raw =
     (case raw of
        Some (PStr s) \<Rightarrow> Some (PFloat (case pf s of Some x \<Rightarrow> x | None \<Rightarrow> Finite 0))
      | other \<Rightarrow> other)"

section \<open>Decoding a zone record\<close>

lemma coerce_float_apply:
  "coerce_float pf f kf g = (if g = f then coerced pf (kf f) else kf g)"
  by (auto simp: coerce_float_def coerced_def split: option.splits pyval.splits)

lemma coerced_idem: "coerced pf (coerced pf raw) = coerced pf raw"
  by (auto simp: coerced_def split: option.splits pyval.splits)

lemma fold_coerce_float:
  "fold (coerce_float pf) fs kf g = (if g \<in> set fs then coerced pf (kf g) else kf g)"
proof (induction fs arbitrary: kf)
  case Nil
  show ?case by simp
next
  case (Cons f fs)
  have "fold (coerce_float pf) (f # fs) kf g = fold (coerce_float pf) fs (coerce_float pf f kf) g"
    by simp
  also have "\<dots> = (if g \<in> set fs then coerced pf (coerce_float pf f kf g)
                    else coerce_float pf f kf g)"
    by (rule Cons.IH)
  also have "\<dots> = (if g \<in> set (f # fs) then coerced pf (kf g) else kf g)"
    by (simp add: coerce_float_apply coerced_idem)
  finally show ?case .
qed

lemma known_float_field:
  "f \<in> set float_fields \<Longrightarrow> (map_of kvs |` set LiveInfoDevice_annotations) f = map_of kvs f"
  by (auto simp: float_fields_def LiveInfoDevice_annotations_def restrict_map_def)

lemma ensure_recent_temps_other:
  "g \<noteq> ''RECENT_TEMPS'' \<Longrightarrow> ensure_recent_temps kf g = kf g"
proof (cases "kf ''RECENT_TEMPS''")
  case None
  assume "g \<noteq> ''RECENT_TEMPS''"
  with None show ?thesis by (simp add: ensure_recent_temps_def)
next
  case (Some v)
  assume "g \<noteq> ''RECENT_TEMPS''"
  with Some show ?thesis by (cases v) (simp_all add: ensure_recent_temps_def)
qed

lemma ensure_available_modes_other:
  "g \<noteq> ''AVAILABLE_MODES'' \<Longrightarrow> ensure_available_modes kf g = kf g"
  by (cases "kf ''AVAILABLE_MODES''") (simp_all add: ensure_available_modes_def)

lemma from_dict_dict:
  "LiveInfoDevice_from_dict pf (PDict kvs) =
     Inr (post_init (LiveInfoDevice_init
       (ensure_available_modes (ensure_recent_temps
          (fold (coerce_float pf) float_fields (map_of kvs |` set LiveInfoDevice_annotations))))))"
  by (simp add: LiveInfoDevice_from_dict_def Let_def)

lemma kwargs_numeric:
  assumes "f \<in> set float_fields"
  shows "ensure_available_modes (ensure_recent_temps
          (fold (coerce_float pf) float_fields (map_of kvs |` set LiveInfoDevice_annotations))) f
         = coerced pf (map_of kvs f)"
proof -
  have a: "f \<noteq> ''RECENT_TEMPS''" "f \<noteq> ''AVAILABLE_MODES''"
    using assms by (auto simp: float_fields_def)
  show ?thesis
    using a assms
    by (simp add: ensure_available_modes_other ensure_recent_temps_other fold_coerce_float known_float_field)
qed

lemma field_or_numeric:
  assumes "f \<in> set float_fields"
  shows "field_or (ensure_available_modes (ensure_recent_temps
          (fold (coerce_float pf) float_fields (map_of kvs |` set LiveInfoDevice_annotations))))
           f (PFloat (Finite 0)) = expected_numeric pf (map_of kvs f)"
  unfolding field_or_def kwargs_numeric [OF assms]
  by (auto simp: coerced_def expected_numeric_def split: option.splits pyval.splits)

lemma post_init_numeric:
  "CURRENT_FLOOR_TEMPERATURE (post_init z) = CURRENT_FLOOR_TEMPERATURE z"
  "HOLD_COOL (post_init z) = HOLD_COOL z"
  "COOL_TEMP (post_init z) = COOL_TEMP z"
  "HOLD_TEMP (post_init z) = HOLD_TEMP z"
  "PRG_TEMP (post_init z) = PRG_TEMP z"
  by (simp_all add: post_init_def Let_def)

lemma init_numeric:
  "CURRENT_FLOOR_TEMPERATURE (LiveInfoDevice_init kw) = field_or kw ''CURRENT_FLOOR_TEMPERATURE'' (PFloat (Finite 0))"
  "HOLD_COOL (LiveInfoDevice_init kw) = field_or kw ''HOLD_COOL'' (PFloat (Finite 0))"
  "COOL_TEMP (LiveInfoDevice_init kw) = field_or kw ''COOL_TEMP'' (PFloat (Finite 0))"
  "HOLD_TEMP (LiveInfoDevice_init kw) = field_or kw ''HOLD_TEMP'' (PFloat (Finite 0))"
  "PRG_TEMP (LiveInfoDevice_init kw) = field_or kw ''PRG_TEMP'' (PFloat (Finite 0))"
  by (simp_all add: LiveInfoDevice_init_def)

lemma known_annotation:
  "f \<in> set LiveInfoDevice_annotations \<Longrightarrow>
     (map_of kvs |` set LiveInfoDevice_annotations) f = map_of kvs f"
  by (simp add: restrict_map_def)

lemma kwargs_plain:
  assumes "f \<in> set LiveInfoDevice_annotations" "f \<notin> set float_fields"
    "f \<noteq> ''RECENT_TEMPS''" "f \<noteq> ''AVAILABLE_MODES''"
  shows "ensure_available_modes (ensure_recent_temps
          (fold (coerce_float pf) float_fields (map_of kvs |` set LiveInfoDevice_annotations))) f
         = map_of kvs f"
  using assms
  by (simp add: ensure_available_modes_other ensure_recent_temps_other fold_coerce_float
        known_annotation)

lemma from_dict_zone_name:
  "\<exists>z. LiveInfoDevice_from_dict pf (PDict kvs) = Inr z
     \<and> ZONE_NAME z = field_or (map_of kvs) ''ZONE_NAME'' PNone
     \<and> ACTUAL_TEMP z = field_or (map_of kvs) ''ACTUAL_TEMP'' PNone"
proof -
  have a: "''ZONE_NAME'' \<in> set LiveInfoDevice_annotations" "''ZONE_NAME'' \<notin> set float_fields"
     "''ACTUAL_TEMP'' \<in> set LiveInfoDevice_annotations" "''ACTUAL_TEMP'' \<notin> set float_fields"
    by (simp_all add: LiveInfoDevice_annotations_def float_fields_def)
  have b: "ZONE_NAME (post_init z) = ZONE_NAME z" "ACTUAL_TEMP (post_init z) = ACTUAL_TEMP z" for z
    by (simp_all add: post_init_def Let_def)
  have c: "ZONE_NAME (LiveInfoDevice_init kw) = field_or kw ''ZONE_NAME'' PNone"
    "ACTUAL_TEMP (LiveInfoDevice_init kw) = field_or kw ''ACTUAL_TEMP'' PNone" for kw
    by (simp_all add: LiveInfoDevice_init_def)
  show ?thesis
    unfolding from_dict_dict
    by (simp add: b c field_or_def kwargs_plain [OF a(1) a(2)] kwargs_plain [OF a(3) a(4)])
qed

lemma kwargs_recent_temps:
  "ensure_available_modes (ensure_recent_temps
          (fold (coerce_float pf) float_fields (map_of kvs |` set LiveInfoDevice_annotations)))
       ''RECENT_TEMPS''
     = (case map_of kvs ''RECENT_TEMPS'' of
          None \<Rightarrow> Some (PList [])
        | Some (PStr s) \<Rightarrow> Some (PList [PStr s])
        | Some v \<Rightarrow> Some v)"
proof -
  have a: "''RECENT_TEMPS'' \<in> set LiveInfoDevice_annotations" "''RECENT_TEMPS'' \<notin> set float_fields"
    by (simp_all add: LiveInfoDevice_annotations_def float_fields_def)
  have "fold (coerce_float pf) float_fields (map_of kvs |` set LiveInfoDevice_annotations)
          ''RECENT_TEMPS'' = map_of kvs ''RECENT_TEMPS''"
    using a by (simp add: fold_coerce_float known_annotation)
  then show ?thesis
    by (simp add: ensure_available_modes_other ensure_recent_temps_def
          split: option.splits pyval.splits)
qed

lemma kwargs_available_modes:
  "ensure_available_modes (ensure_recent_temps
          (fold (coerce_float pf) float_fields (map_of kvs |` set LiveInfoDevice_annotations)))
       ''AVAILABLE_MODES''
     = (case map_of kvs ''AVAILABLE_MODES'' of None \<Rightarrow> Some (PList []) | Some v \<Rightarrow> Some v)"
proof -
  have a: "''AVAILABLE_MODES'' \<in> set LiveInfoDevice_annotations"
    "''AVAILABLE_MODES'' \<notin> set float_fields"
    by (simp_all add: LiveInfoDevice_annotations_def float_fields_def)
  have "ensure_recent_temps
          (fold (coerce_float pf) float_fields (map_of kvs |` set LiveInfoDevice_annotations))
          ''AVAILABLE_MODES'' = map_of kvs ''AVAILABLE_MODES''"
    using a by (simp add: ensure_recent_temps_other fold_coerce_float known_annotation)
  then show ?thesis
    by (simp add: ensure_available_modes_def split: option.splits)
qed

lemma post_init_lists:
  "RECENT_TEMPS (post_init z) = (if RECENT_TEMPS z = PNone then PList [] else RECENT_TEMPS z)"
  "AVAILABLE_MODES (post_init z) = (if AVAILABLE_MODES z = PNone then PList [] else AVAILABLE_MODES z)"
  by (simp_all add: post_init_def Let_def)

lemma init_lists:
  "RECENT_TEMPS (LiveInfoDevice_init kw) = field_or kw ''RECENT_TEMPS'' PNone"
  "AVAILABLE_MODES (LiveInfoDevice_init kw) = field_or kw ''AVAILABLE_MODES'' PNone"
  by (simp_all add: LiveInfoDevice_init_def)

lemma from_dict_recent_temps:
  "\<exists>z. LiveInfoDevice_from_dict pf (PDict kvs) = Inr z
     \<and> RECENT_TEMPS z =
         (case map_of kvs ''RECENT_TEMPS'' of
            None \<Rightarrow> PList []
          | Some (PStr s) \<Rightarrow> PList [PStr s]
          | Some PNone \<Rightarrow> PList []
          | Some v \<Rightarrow> v)"
  unfolding from_dict_dict
  by (simp add: post_init_lists init_lists field_or_def kwargs_recent_temps
        split: option.splits pyval.splits)

lemma from_dict_available_modes:
  "\<exists>z. LiveInfoDevice_from_dict pf (PDict kvs) = Inr z
     \<and> AVAILABLE_MODES z =
         (case map_of kvs ''AVAILABLE_MODES'' of
            None \<Rightarrow> PList []
          | Some PNone \<Rightarrow> PList []
          | Some v \<Rightarrow> v)"
  unfolding from_dict_dict
  by (simp add: post_init_lists init_lists field_or_def kwargs_available_modes
        split: option.splits pyval.splits)

text \<open>
  C2. On every zone record, \<open>LiveInfoDevice_from_dict\<close> returns a zone, and each of the five
  numeric fields (\<open>CURRENT_FLOOR_TEMPERATURE\<close>, \<open>HOLD_COOL\<close>, \<open>COOL_TEMP\<close>, \<open>HOLD_TEMP\<close>,
  \<open>PRG_TEMP\<close>) holds the parsed number when the record gave a string that parses, \<open>0.0\<close>
  when it gave a string that does not parse, and \<open>0.0\<close> when the field is absent.
\<close>

theorem from_dict_numeric_fields:
  "\<exists>z. LiveInfoDevice_from_dict pf (PDict kvs) = Inr z
     \<and> CURRENT_FLOOR_TEMPERATURE z = expected_numeric pf (map_of kvs ''CURRENT_FLOOR_TEMPERATURE'')
     \<and> HOLD_COOL z = expected_numeric pf (map_of kvs ''HOLD_COOL'')
     \<and> COOL_TEMP z = expected_numeric pf (map_of kvs ''COOL_TEMP'')
     \<and> HOLD_TEMP z = expected_numeric pf (map_of kvs ''HOLD_TEMP'')
     \<and> PRG_TEMP z = expected_numeric pf (map_of kvs ''PRG_TEMP'')"
proof -
  have m: "''CURRENT_FLOOR_TEMPERATURE'' \<in> set float_fields" "''HOLD_COOL'' \<in> set float_fields"
    "''COOL_TEMP'' \<in> set float_fields" "''HOLD_TEMP'' \<in> set float_fields"
    "''PRG_TEMP'' \<in> set float_fields"
    by (simp_all add: float_fields_def)
  show ?thesis
    unfolding from_dict_dict
    using m by (simp add: post_init_numeric init_numeric field_or_numeric)
qed

text \<open>
  A record with a string that parses, one that does not, a number and two absent fields.
\<close>

theorem from_dict_numeric_fields_witness:
  "\<exists>z. LiveInfoDevice_from_dict plain_decimal
          (PDict [(''HOLD_TEMP'', PStr ''21.5''), (''COOL_TEMP'', PStr ''warm''),
                  (''HOLD_COOL'', PInt 3)]) = Inr z
     \<and> CURRENT_FLOOR_TEMPERATURE z = PFloat (Finite 0)
     \<and> HOLD_COOL z = PInt 3
     \<and> COOL_TEMP z = PFloat (Finite 0)
     \<and> HOLD_TEMP z = PFloat (Finite (43 / 2))
     \<and> PRG_TEMP z = PFloat (Finite 0)"
proof -
  have a: "plain_decimal ''21.5'' = Some (Finite (43 / 2))" by code_simp
  have b: "plain_decimal ''warm'' = None" by code_simp
  show ?thesis
    using from_dict_numeric_fields [of plain_decimal
      "[(''HOLD_TEMP'', PStr ''21.5''), (''COOL_TEMP'', PStr ''warm''), (''HOLD_COOL'', PInt 3)]"]
    by (simp add: expected_numeric_def a b)
qed

text \<open>
  C1. A list-typed field given as a single bare string must decode to the one-element
  list of that string. \<open>RECENT_TEMPS\<close> does (\<open>from_dict_recent_temps\<close>); \<open>AVAILABLE_MODES\<close>
  does not: on the record \<^verbatim>\<open>{"AVAILABLE_MODES": "heat"}\<close> the decoded field is the string
  itself, not the list \<^verbatim>\<open>["heat"]\<close>.
\<close>

theorem from_dict_available_modes_bare_string:
  "\<exists>z. LiveInfoDevice_from_dict plain_decimal (PDict [(''AVAILABLE_MODES'', PStr ''heat'')]) = Inr z
     \<and> AVAILABLE_MODES z = PStr ''heat''
     \<and> AVAILABLE_MODES z \<noteq> PList [PStr ''heat'']"
  using from_dict_available_modes [of plain_decimal "[(''AVAILABLE_MODES'', PStr ''heat'')]"]
  by auto

section \<open>Classifying a zone and validating its temperature\<close>

lemma pd_sentinel: "plain_decimal ''255.255'' = Some (Finite (51051 / 200))"
  by code_simp

lemma float_le_range:
  "(float_le (Finite 0) v \<and> float_le v (Finite 50)) = (\<exists>q. v = Finite q \<and> 0 \<le> q \<and> q \<le> 50)"
  by (cases v) auto

text \<open>
  C3. For a socket every text is valid. For a thermostat a text is valid exactly when
  \<^verbatim>\<open>float\<close> parses it to a number between 0 and 50, so a text that does not parse, a
  number out of range, an infinity and NaN are all invalid. \<^verbatim>\<open>"255.255"\<close> is valid for a
  socket and invalid for a thermostat. The function reads nothing but its arguments.
\<close>

theorem is_valid_temperature_spec:
  "is_valid_temperature pf text ''SOCKET'' = True
   \<and> is_valid_temperature pf text ''THERMOSTAT''
       = (\<exists>q. pf text = Some (Finite q) \<and> 0 \<le> q \<and> q \<le> 50)
   \<and> is_valid_temperature plain_decimal ''255.255'' ''SOCKET'' = True
   \<and> is_valid_temperature plain_decimal ''255.255'' ''THERMOSTAT'' = False"
proof -
  have "is_valid_temperature pf text ''THERMOSTAT''
       = (\<exists>q. pf text = Some (Finite q) \<and> 0 \<le> q \<and> q \<le> 50)"
    by (cases "pf text") (simp_all add: is_valid_temperature_def float_le_range)
  then show ?thesis
    by (simp add: is_valid_temperature_def pd_sentinel)
qed

lemma get_device_type_named:
  "ZONE_NAME z = PStr name \<Longrightarrow>
     get_device_type z =
       Inr (if ACTUAL_TEMP z = PStr ''255.255'' \<or> is_substring ''Socket'' name
            then ''SOCKET'' else ''THERMOSTAT'')"
  by (auto simp: get_device_type_def)

lemma get_device_type_sentinel:
  "ACTUAL_TEMP z = PStr ''255.255'' \<Longrightarrow> get_device_type z = Inr ''SOCKET''"
  by (simp add: get_device_type_def)

lemma get_device_type_unnamed:
  "ZONE_NAME z = PNone \<Longrightarrow> ACTUAL_TEMP z \<noteq> PStr ''255.255'' \<Longrightarrow>
     get_device_type z = Inl TypeError"
  by (simp add: get_device_type_def)

text \<open>
  C4. The classifier must return a kind for every decoded zone, also for one whose name
  is absent. It does not: the record \<^verbatim>\<open>{"ACTUAL_TEMP": "21.5"}\<close> decodes to a zone whose
  \<open>ZONE_NAME\<close> is \<^verbatim>\<open>None\<close>, and \<^verbatim>\<open>"Socket" in None\<close> raises \<^verbatim>\<open>TypeError\<close>. With a name
  that is a string the rule is the one of the specification (\<open>get_device_type_named\<close>).
\<close>

theorem get_device_type_absent_name:
  "\<exists>z. LiveInfoDevice_from_dict plain_decimal (PDict [(''ACTUAL_TEMP'', PStr ''21.5'')]) = Inr z
     \<and> ZONE_NAME z = PNone
     \<and> get_device_type z = Inl TypeError"
proof -
  obtain z where z: "LiveInfoDevice_from_dict plain_decimal (PDict [(''ACTUAL_TEMP'', PStr ''21.5'')]) = Inr z"
    "ZONE_NAME z = field_or (map_of [(''ACTUAL_TEMP'', PStr ''21.5'')]) ''ZONE_NAME'' PNone"
    "ACTUAL_TEMP z = field_or (map_of [(''ACTUAL_TEMP'', PStr ''21.5'')]) ''ACTUAL_TEMP'' PNone"
    using from_dict_zone_name by blast
  from z(2) have n: "ZONE_NAME z = PNone" by (simp add: field_or_def)
  from z(3) have a: "ACTUAL_TEMP z = PStr ''21.5''" by (simp add: field_or_def)
  from n a have "get_device_type z = Inl TypeError"
    by (simp add: get_device_type_unnamed)
  with z(1) n show ?thesis by blast
qed

text \<open>
  The sentinel test applies to strings only: a zone whose \<open>ACTUAL_TEMP\<close> is a number
  (255.255 among them) and whose name is a string without \<^verbatim>\<open>Socket\<close> is a thermostat.
\<close>

theorem get_device_type_numeric_sentinel:
  "ACTUAL_TEMP z = PFloat v \<Longrightarrow> ZONE_NAME z = PStr name \<Longrightarrow> \<not> is_substring ''Socket'' name
     \<Longrightarrow> get_device_type z = Inr ''THERMOSTAT''"
  by (simp add: get_device_type_def)

text \<open>The zone decoded from a record with the number 255.255 and the name \<^verbatim>\<open>Living Room\<close>.\<close>

theorem get_device_type_numeric_sentinel_witness:
  "\<exists>z. LiveInfoDevice_from_dict plain_decimal
          (PDict [(''ACTUAL_TEMP'', PFloat (Finite (51051 / 200))),
                  (''ZONE_NAME'', PStr ''Living Room'')]) = Inr z
     \<and> ACTUAL_TEMP z = PFloat (Finite (51051 / 200))
     \<and> ZONE_NAME z = PStr ''Living Room''
     \<and> \<not> is_substring ''Socket'' ''Living Room''
     \<and> get_device_type z = Inr ''THERMOSTAT''"
proof -
  obtain z where z: "LiveInfoDevice_from_dict plain_decimal
          (PDict [(''ACTUAL_TEMP'', PFloat (Finite (51051 / 200))),
                  (''ZONE_NAME'', PStr ''Living Room'')]) = Inr z"
    "ZONE_NAME z = field_or (map_of [(''ACTUAL_TEMP'', PFloat (Finite (51051 / 200))),
                  (''ZONE_NAME'', PStr ''Living Room'')]) ''ZONE_NAME'' PNone"
    "ACTUAL_TEMP z = field_or (map_of [(''ACTUAL_TEMP'', PFloat (Finite (51051 / 200))),
                  (''ZONE_NAME'', PStr ''Living Room'')]) ''ACTUAL_TEMP'' PNone"
    using from_dict_zone_name by blast
  from z(2) have n: "ZONE_NAME z = PStr ''Living Room''" by (simp add: field_or_def)
  from z(3) have a: "ACTUAL_TEMP z = PFloat (Finite (51051 / 200))" by (simp add: field_or_def)
  have s: "\<not> is_substring ''Socket'' ''Living Room''" by simp
  from get_device_type_numeric_sentinel [OF a n s] z(1) n a s show ?thesis by blast
qed

text \<open>
  C10. With a number in \<open>ACTUAL_TEMP\<close> the sentinel test is false, so a zone whose name
  does not contain \<^verbatim>\<open>Socket\<close> must be a thermostat. For a name that is a string it is
  (\<open>get_device_type_numeric_sentinel\<close>). For a zone without a name it is not: the record
  \<^verbatim>\<open>{"ACTUAL_TEMP": 255.255}\<close> decodes to a zone whose \<open>ZONE_NAME\<close> is \<^verbatim>\<open>None\<close>, the right
  operand of \<^verbatim>\<open>or\<close> is evaluated, and \<^verbatim>\<open>"Socket" in None\<close> raises \<^verbatim>\<open>TypeError\<close>.
\<close>

theorem get_device_type_numeric_sentinel_absent_name:
  "\<exists>z. LiveInfoDevice_from_dict plain_decimal
          (PDict [(''ACTUAL_TEMP'', PFloat (Finite (51051 / 200)))]) = Inr z
     \<and> ACTUAL_TEMP z = PFloat (Finite (51051 / 200))
     \<and> ZONE_NAME z = PNone
     \<and> get_device_type z = Inl TypeError
     \<and> get_device_type z \<noteq> Inr ''THERMOSTAT''"
proof -
  obtain z where z: "LiveInfoDevice_from_dict plain_decimal
          (PDict [(''ACTUAL_TEMP'', PFloat (Finite (51051 / 200)))]) = Inr z"
    "ZONE_NAME z = field_or (map_of [(''ACTUAL_TEMP'', PFloat (Finite (51051 / 200)))])
                     ''ZONE_NAME'' PNone"
    "ACTUAL_TEMP z = field_or (map_of [(''ACTUAL_TEMP'', PFloat (Finite (51051 / 200)))])
                     ''ACTUAL_TEMP'' PNone"
    using from_dict_zone_name by blast
  from z(2) have n: "ZONE_NAME z = PNone" by (simp add: field_or_def)
  from z(3) have a: "ACTUAL_TEMP z = PFloat (Finite (51051 / 200))" by (simp add: field_or_def)
  from n a have t: "get_device_type z = Inl TypeError"
    by (simp add: get_device_type_unnamed)
  from z(1) n a t show ?thesis by auto
qed

section \<open>The substring test\<close>

text \<open>\<open>is_substring\<close> is the substring relation: the needle occurs somewhere in the text.\<close>

lemma starts_with_iff: "starts_with needle hay \<longleftrightarrow> (\<exists>post. hay = needle @ post)"
  by (induction needle hay rule: starts_with.induct) auto

lemma is_substring_iff:
  "is_substring needle hay \<longleftrightarrow> (\<exists>pre post. hay = pre @ needle @ post)"
proof (induction hay)
  case Nil
  show ?case by auto
next
  case (Cons h hs)
  show ?case
  proof
    assume "is_substring needle (h # hs)"
    then consider "starts_with needle (h # hs)" | "is_substring needle hs" by auto
    then show "\<exists>pre post. h # hs = pre @ needle @ post"
    proof cases
      case 1
      then obtain post where "h # hs = needle @ post" by (auto simp: starts_with_iff)
      then have "h # hs = [] @ needle @ post" by simp
      then show ?thesis by blast
    next
      case 2
      then obtain pre post where "hs = pre @ needle @ post" using Cons.IH by blast
      then have "h # hs = (h # pre) @ needle @ post" by simp
      then show ?thesis by blast
    qed
  next
    assume "\<exists>pre post. h # hs = pre @ needle @ post"
    then obtain pre post where e: "h # hs = pre @ needle @ post" by blast
    show "is_substring needle (h # hs)"
    proof (cases pre)
      case Nil
      with e have "starts_with needle (h # hs)" by (auto simp: starts_with_iff)
      then show ?thesis by simp
    next
      case (Cons p ps)
      with e have "hs = ps @ needle @ post" by simp
      then have "is_substring needle hs" using Cons.IH by blast
      then show ?thesis by simp
    qed
  qed
qed

section \<open>The client\<close>

lemma getitem_Inr: "getitem v k = Inr x \<longleftrightarrow> (\<exists>kvs. v = PDict kvs \<and> map_of kvs k = Some x)"
  by (cases v) (auto split: option.splits)

lemma command_result_dict:
  "command_result what (PDict kvs) =
     (case map_of kvs ''STATUS'' of
        None \<Rightarrow> Inl (KeyError ''STATUS'')
      | Some status \<Rightarrow>
          if eq_int status 1 then Inr (PDict kvs)
          else Inl (Exception [Lit what,
                 Fmt (case map_of kvs ''ERROR'' of None \<Rightarrow> PStr ''Unknown error'' | Some m \<Rightarrow> m)]))"
  by (simp add: command_result_def split: option.splits)

lemma command_result_not_dict:
  "(\<forall>kvs. response \<noteq> PDict kvs) \<Longrightarrow> command_result what response = Inl TypeError"
  by (cases response) (simp_all add: command_result_def)

lemma set_temperature_result:
  "truthy (token self) \<Longrightarrow>
     fst (set_temperature (answering response) self device_id zone_name temperature)
       = command_result ''Failed to set temperature: '' response"
  by (simp add: set_temperature_def Let_def form_post_request_def answering_def)

lemma set_mode_result:
  "truthy (token self) \<Longrightarrow>
     fst (set_mode (answering response) self device_id zone_name mode)
       = command_result ''Failed to set mode: '' response"
  by (simp add: set_mode_def Let_def form_post_request_def answering_def)

lemma set_away_mode_result:
  "truthy (token self) \<Longrightarrow>
     fst (set_away_mode (answering response) self device_id enabled)
       = command_result ''Failed to set away mode: '' response"
  by (simp add: set_away_mode_def Let_def form_post_request_def answering_def)

lemma get_history_result:
  "truthy (token self) \<Longrightarrow>
     fst (get_history (answering response) self device_id zone_name)
       = command_result ''Failed to get history: '' response"
  by (simp add: get_history_def Let_def form_post_request_def answering_def)

lemma guarded:
  "\<not> truthy (token self) \<Longrightarrow> get_data pf net self device_id = (Inl not_logged_in, self, [])"
  "\<not> truthy (token self) \<Longrightarrow>
     set_temperature net self device_id zone_name temperature = (Inl not_logged_in, self)"
  "\<not> truthy (token self) \<Longrightarrow> set_mode net self device_id zone_name mode = (Inl not_logged_in, self)"
  "\<not> truthy (token self) \<Longrightarrow> set_away_mode net self device_id enabled = (Inl not_logged_in, self)"
  "\<not> truthy (token self) \<Longrightarrow> get_history net self device_id zone_name = (Inl not_logged_in, self)"
  by (simp_all add: get_data_def set_temperature_def set_mode_def set_away_mode_def get_history_def)

text \<open>
  C6. Called while no token is held (\<^verbatim>\<open>None\<close>, the empty string, or any other falsy
  value), each of \<open>get_data\<close>, \<open>set_temperature\<close>, \<open>set_mode\<close>, \<open>set_away_mode\<close> and
  \<open>get_history\<close> fails with \<^verbatim>\<open>Not logged in. Call login() first\<close> and returns the client as
  it was: its \<open>session\<close> has no new request, whatever the network would have answered.
\<close>

theorem authenticated_operations_require_token:
  "\<not> truthy (token self) \<Longrightarrow>
     get_data pf net self device_id = (Inl not_logged_in, self, [])
     \<and> set_temperature net self device_id zone_name temperature = (Inl not_logged_in, self)
     \<and> set_mode net self device_id zone_name mode = (Inl not_logged_in, self)
     \<and> set_away_mode net self device_id enabled = (Inl not_logged_in, self)
     \<and> get_history net self device_id zone_name = (Inl not_logged_in, self)"
  by (simp add: guarded)

text \<open>A client whose token is the empty string: nothing is posted.\<close>

theorem authenticated_operations_require_token_witness:
  "\<not> truthy (token (example_client\<lparr>token := PStr ''''\<rparr>))
   \<and> get_data plain_decimal (answering (PDict [(''STATUS'', PInt 1)]))
        (example_client\<lparr>token := PStr ''''\<rparr>) ''dev1''
       = (Inl (Exception [Lit ''Not logged in. Call login() first'']),
          example_client\<lparr>token := PStr ''''\<rparr>, [])
   \<and> session (snd (set_temperature (answering (PDict [(''STATUS'', PInt 1)]))
        (example_client\<lparr>token := PStr ''''\<rparr>) ''dev1'' ''Hall'' (Finite 21))) = []
   \<and> fst (set_temperature (answering (PDict [(''STATUS'', PInt 1)]))
        (example_client\<lparr>token := PStr ''''\<rparr>) ''dev1'' ''Hall'' (Finite 21))
       = Inl (Exception [Lit ''Not logged in. Call login() first''])"
proof -
  have h: "\<not> truthy (token (example_client\<lparr>token := PStr ''''\<rparr>))" by simp
  have s: "session (example_client\<lparr>token := PStr ''''\<rparr>) = []"
    by (simp add: example_client_def NeoHub_init_def)
  show ?thesis
    using h s authenticated_operations_require_token [OF h, of plain_decimal
      "answering (PDict [(''STATUS'', PInt 1)])" "''dev1''" "''Hall''" "Finite 21"]
    by (simp add: not_logged_in_def)
qed

lemma fold_parse_step:
  "fold (parse_step pf) xs acc =
     (fst acc @ map projr (filter (\<lambda>r. \<not> isl r) (map (LiveInfoDevice_from_dict pf) xs)),
      snd acc @ map projl (filter isl (map (LiveInfoDevice_from_dict pf) xs)))"
proof (induction xs arbitrary: acc)
  case Nil
  show ?case by simp
next
  case (Cons x xs)
  have "fold (parse_step pf) (x # xs) acc = fold (parse_step pf) xs (parse_step pf x acc)"
    by simp
  also have "\<dots> =
     (fst (parse_step pf x acc)
        @ map projr (filter (\<lambda>r. \<not> isl r) (map (LiveInfoDevice_from_dict pf) xs)),
      snd (parse_step pf x acc)
        @ map projl (filter isl (map (LiveInfoDevice_from_dict pf) xs)))"
    by (rule Cons.IH)
  also have "\<dots> =
     (fst acc @ map projr (filter (\<lambda>r. \<not> isl r) (map (LiveInfoDevice_from_dict pf) (x # xs))),
      snd acc @ map projl (filter isl (map (LiveInfoDevice_from_dict pf) (x # xs))))"
    by (cases "LiveInfoDevice_from_dict pf x") (simp_all add: parse_step_def)
  finally show ?case .
qed

lemma convert_live_info_devices:
  assumes "getitem response ''CACHE_VALUE'' = Inr cv"
    and "getitem cv ''live_info'' = Inr li"
    and "dict_get li ''devices'' (PList []) = Inr ds"
    and "py_iter ds = Inr xs"
  shows "convert_live_info pf response =
     Inr (Some (map projr (filter (\<lambda>r. \<not> isl r) (map (LiveInfoDevice_from_dict pf) xs))),
          map projl (filter isl (map (LiveInfoDevice_from_dict pf) xs)))"
proof -
  from assms(1) obtain kvs where r: "response = PDict kvs" "map_of kvs ''CACHE_VALUE'' = Some cv"
    by (auto simp: getitem_Inr)
  from assms(2) obtain cvs where c: "cv = PDict cvs" "map_of cvs ''live_info'' = Some li"
    by (auto simp: getitem_Inr)
  show ?thesis
    using assms(3,4) by (simp add: convert_live_info_def r c fold_parse_step)
qed

lemma convert_live_info_no_cache:
  "response = PDict kvs \<Longrightarrow> map_of kvs ''CACHE_VALUE'' = None \<Longrightarrow>
     convert_live_info pf response = Inr (None, [])"
  by (simp add: convert_live_info_def)

lemma get_data_posted:
  assumes "truthy (token self)" and "getitem response ''STATUS'' = Inr status"
  shows "fst (get_data pf (answering response) self device_id) =
           (if eq_int status 1 \<or> eq_int status 201
            then (case convert_live_info pf response of
                    Inl e \<Rightarrow> Inl e | Inr conv \<Rightarrow> Inr (response, fst conv))
            else Inl (Exception [Lit ''Unexpected status from getData: '', Fmt status]))"
    and "snd (snd (get_data pf (answering response) self device_id)) =
           (if eq_int status 1 \<or> eq_int status 201
            then (case convert_live_info pf response of Inl e \<Rightarrow> [] | Inr conv \<Rightarrow> snd conv)
            else [])"
  using assms
  by (auto simp: get_data_def Let_def form_post_request_def answering_def split: sum.splits)

lemma convert_live_info_errors:
  "convert_live_info pf response = Inl e \<Longrightarrow> e = TypeError \<or> e = AttributeError"
  by (auto simp: convert_live_info_def Let_def split: sum.splits bool.splits option.splits
        elim!: getitem.elims dict_get.elims py_iter.elims contains.elims)

lemma logged_in_truthy: "truthy (token logged_in_client)"
  by (simp add: logged_in_client_def)

lemma zone_response_shape:
  "getitem zone_response ''STATUS'' = Inr (PInt 201)"
  "getitem zone_response ''CACHE_VALUE'' =
     Inr (PDict [(''live_info'',
                  PDict [(''devices'',
                          PList [PDict [(''ZONE_NAME'', PStr ''Living Room''),
                                        (''ACTUAL_TEMP'', PStr ''21.5'')],
                                 PStr ''garbage''])])])"
  "getitem (PDict [(''live_info'',
                  PDict [(''devices'',
                          PList [PDict [(''ZONE_NAME'', PStr ''Living Room''),
                                        (''ACTUAL_TEMP'', PStr ''21.5'')],
                                 PStr ''garbage''])])]) ''live_info'' =
     Inr (PDict [(''devices'',
                  PList [PDict [(''ZONE_NAME'', PStr ''Living Room''),
                                (''ACTUAL_TEMP'', PStr ''21.5'')],
                         PStr ''garbage''])])"
  "dict_get (PDict [(''devices'',
                  PList [PDict [(''ZONE_NAME'', PStr ''Living Room''),
                                (''ACTUAL_TEMP'', PStr ''21.5'')],
                         PStr ''garbage''])]) ''devices'' (PList []) =
     Inr (PList [PDict [(''ZONE_NAME'', PStr ''Living Room''),
                                (''ACTUAL_TEMP'', PStr ''21.5'')],
                         PStr ''garbage''])"
  by (simp_all add: zone_response_def)

text \<open>
  C7. When a token is held and the body has a \<open>STATUS\<close>: with a status equal to 1 or to
  201, \<open>get_data\<close> does not fail with the status error, and returns the response when the
  body has the shape \<^verbatim>\<open>{CACHE_VALUE: {live_info: {devices: [...]}}}\<close>; with any other
  status it fails with \<^verbatim>\<open>Unexpected status from getData: {status}\<close>, which carries the
  status.
\<close>

theorem get_data_status:
  assumes "truthy (token self)" and "getitem response ''STATUS'' = Inr status"
  shows "((eq_int status 1 \<or> eq_int status 201) \<longrightarrow>
            (\<forall>st. fst (get_data pf (answering response) self device_id)
                   \<noteq> Inl (Exception [Lit ''Unexpected status from getData: '', Fmt st]))
            \<and> (\<forall>cv li ds. getitem response ''CACHE_VALUE'' = Inr cv
                   \<and> getitem cv ''live_info'' = Inr li
                   \<and> dict_get li ''devices'' (PList []) = Inr (PList ds)
                 \<longrightarrow> (\<exists>zones. fst (get_data pf (answering response) self device_id)
                                = Inr (response, Some zones))))
         \<and> (\<not> (eq_int status 1 \<or> eq_int status 201) \<longrightarrow>
              fst (get_data pf (answering response) self device_id)
                = Inl (Exception [Lit ''Unexpected status from getData: '', Fmt status]))"
proof (cases "eq_int status 1 \<or> eq_int status 201")
  case True
  have r: "fst (get_data pf (answering response) self device_id) =
        (case convert_live_info pf response of
           Inl e \<Rightarrow> Inl e | Inr conv \<Rightarrow> Inr (response, fst conv))"
    using get_data_posted(1) [OF assms] True by simp
  have a: "fst (get_data pf (answering response) self device_id)
             \<noteq> Inl (Exception [Lit ''Unexpected status from getData: '', Fmt st])" for st
  proof (cases "convert_live_info pf response")
    case (Inl e)
    then have "e = TypeError \<or> e = AttributeError" by (rule convert_live_info_errors)
    with Inl r show ?thesis by auto
  next
    case (Inr conv)
    with r show ?thesis by simp
  qed
  have b: "\<exists>zones. fst (get_data pf (answering response) self device_id)
                                = Inr (response, Some zones)"
    if "getitem response ''CACHE_VALUE'' = Inr cv" "getitem cv ''live_info'' = Inr li"
       "dict_get li ''devices'' (PList []) = Inr (PList ds)" for cv li ds
    using r convert_live_info_devices [OF that, of ds pf] by simp
  from True a b show ?thesis by blast
next
  case False
  then show ?thesis using get_data_posted(1) [OF assms] by simp
qed

text \<open>Status 201 and status 1 are accepted, status 0 is refused.\<close>

theorem get_data_status_witness:
  "truthy (token logged_in_client)
   \<and> getitem zone_response ''STATUS'' = Inr (PInt 201)
   \<and> (eq_int (PInt 201) 1 \<or> eq_int (PInt 201) 201)
   \<and> (\<exists>zones. fst (get_data plain_decimal (answering zone_response) logged_in_client ''dev1'')
                 = Inr (zone_response, Some zones))
   \<and> getitem (PDict [(''STATUS'', PInt 1)]) ''STATUS'' = Inr (PInt 1)
   \<and> fst (get_data plain_decimal (answering (PDict [(''STATUS'', PInt 1)])) logged_in_client ''dev1'')
       \<noteq> Inl (Exception [Lit ''Unexpected status from getData: '', Fmt (PInt 1)])
   \<and> getitem (PDict [(''STATUS'', PInt 0)]) ''STATUS'' = Inr (PInt 0)
   \<and> \<not> (eq_int (PInt 0) 1 \<or> eq_int (PInt 0) 201)
   \<and> fst (get_data plain_decimal (answering (PDict [(''STATUS'', PInt 0)])) logged_in_client ''dev1'')
       = Inl (Exception [Lit ''Unexpected status from getData: '', Fmt (PInt 0)])"
proof -
  have s0: "getitem (PDict [(''STATUS'', PInt 0)]) ''STATUS'' = Inr (PInt 0)" by simp
  have s1: "getitem (PDict [(''STATUS'', PInt 1)]) ''STATUS'' = Inr (PInt 1)" by simp
  note a = get_data_status [OF logged_in_truthy zone_response_shape(1), of plain_decimal "''dev1''"]
  note b = get_data_status [OF logged_in_truthy s0, of plain_decimal "''dev1''"]
  note c = get_data_status [OF logged_in_truthy s1, of plain_decimal "''dev1''"]
  have "\<exists>zones. fst (get_data plain_decimal (answering zone_response) logged_in_client ''dev1'')
                 = Inr (zone_response, Some zones)"
    using a zone_response_shape(2,3,4) by simp
  moreover have "fst (get_data plain_decimal (answering (PDict [(''STATUS'', PInt 0)])) logged_in_client ''dev1'')
       = Inl (Exception [Lit ''Unexpected status from getData: '', Fmt (PInt 0)])"
    using b by simp
  moreover have "fst (get_data plain_decimal (answering (PDict [(''STATUS'', PInt 1)])) logged_in_client ''dev1'')
       \<noteq> Inl (Exception [Lit ''Unexpected status from getData: '', Fmt (PInt 1)])"
    using c by simp
  ultimately show ?thesis
    using logged_in_truthy zone_response_shape(1) s0 s1 by simp
qed

text \<open>
  C8. On a successful response with a list of zone records, \<open>get_data\<close> returns the zones
  of the records that decode, in order, and prints one warning for each record that does
  not; a record that fails never makes the call fail.
\<close>

theorem get_data_isolates_bad_records:
  assumes "truthy (token self)"
    and "getitem response ''STATUS'' = Inr status"
    and "eq_int status 1 \<or> eq_int status 201"
    and "getitem response ''CACHE_VALUE'' = Inr cv"
    and "getitem cv ''live_info'' = Inr li"
    and "dict_get li ''devices'' (PList []) = Inr (PList ds)"
  shows "fst (get_data pf (answering response) self device_id)
           = Inr (response,
                  Some (map projr (filter (\<lambda>r. \<not> isl r) (map (LiveInfoDevice_from_dict pf) ds))))
         \<and> snd (snd (get_data pf (answering response) self device_id))
           = map projl (filter isl (map (LiveInfoDevice_from_dict pf) ds))"
  using get_data_posted [OF assms(1,2)] assms(3)
    convert_live_info_devices [OF assms(4,5,6), of ds pf]
  by simp

text \<open>One well-formed and one malformed record: one zone, one warning.\<close>

theorem get_data_isolates_bad_records_witness:
  "truthy (token logged_in_client)
   \<and> getitem zone_response ''STATUS'' = Inr (PInt 201)
   \<and> (eq_int (PInt 201) 1 \<or> eq_int (PInt 201) 201)
   \<and> (\<exists>z. fst (get_data plain_decimal (answering zone_response) logged_in_client ''dev1'')
             = Inr (zone_response, Some [z])
          \<and> ZONE_NAME z = PStr ''Living Room'')
   \<and> snd (snd (get_data plain_decimal (answering zone_response) logged_in_client ''dev1''))
       = [AttributeError]"
proof -
  have e: "eq_int (PInt 201) 1 \<or> eq_int (PInt 201) 201" by simp
  note a = get_data_isolates_bad_records [OF logged_in_truthy zone_response_shape(1) e
             zone_response_shape(2,3,4), of plain_decimal "''dev1''"]
  obtain z where z: "LiveInfoDevice_from_dict plain_decimal
        (PDict [(''ZONE_NAME'', PStr ''Living Room''), (''ACTUAL_TEMP'', PStr ''21.5'')]) = Inr z"
     "ZONE_NAME z = field_or (map_of [(''ZONE_NAME'', PStr ''Living Room''),
         (''ACTUAL_TEMP'', PStr ''21.5'')]) ''ZONE_NAME'' PNone"
    using from_dict_zone_name by blast
  have bad: "LiveInfoDevice_from_dict plain_decimal (PStr ''garbage'') = Inl AttributeError"
    by (simp add: LiveInfoDevice_from_dict_def)
  have n: "ZONE_NAME z = PStr ''Living Room''" using z(2) by (simp add: field_or_def)
  have "fst (get_data plain_decimal (answering zone_response) logged_in_client ''dev1'')
             = Inr (zone_response, Some [z])"
    using a by (simp add: z(1) bad)
  moreover have "snd (snd (get_data plain_decimal (answering zone_response) logged_in_client ''dev1''))
       = [AttributeError]"
    using a by (simp add: z(1) bad)
  ultimately show ?thesis using n logged_in_truthy zone_response_shape(1) e by blast
qed

section \<open>Logging in\<close>

lemma command_result_not_guard: "command_result what response \<noteq> Inl not_logged_in"
  by (cases response)
     (auto simp: command_result_def not_logged_in_def split: option.splits sum.splits)

lemma get_data_guard_iff:
  "(fst (get_data pf (answering response) self device_id) = Inl not_logged_in)
     = (\<not> truthy (token self))"
proof (cases "truthy (token self)")
  case False
  then show ?thesis by (simp add: guarded)
next
  case True
  have "fst (get_data pf (answering response) self device_id) \<noteq> Inl not_logged_in"
  proof (cases "getitem response ''STATUS''")
    case (Inl e)
    then have "e \<noteq> not_logged_in"
      by (cases response) (auto simp: not_logged_in_def split: option.splits)
    with Inl True show ?thesis
      by (simp add: get_data_def Let_def form_post_request_def answering_def)
  next
    case (Inr status)
    show ?thesis
    proof (cases "convert_live_info pf response")
      case (Inl e)
      then have "e = TypeError \<or> e = AttributeError" by (rule convert_live_info_errors)
      with Inl get_data_posted(1) [OF True Inr, of pf device_id] show ?thesis
        by (auto simp: not_logged_in_def)
    next
      case (Inr conv)
      with get_data_posted(1) [OF True \<open>getitem response ''STATUS'' = Inr status\<close>, of pf device_id]
      show ?thesis by (auto simp: not_logged_in_def)
    qed
  qed
  with True show ?thesis by simp
qed

lemma set_temperature_guard_iff:
  "(fst (set_temperature (answering response) self device_id zone_name temperature)
      = Inl not_logged_in) = (\<not> truthy (token self))"
proof (cases "truthy (token self)")
  case False
  then show ?thesis by (simp add: guarded)
next
  case True
  then show ?thesis by (simp add: set_temperature_result command_result_not_guard)
qed

lemma login_refused:
  assumes "getitem response ''STATUS'' = Inr status" and "\<not> eq_int status 1"
  shows "login (answering response) self =
          (Inl (Exception [Lit ''Login failed with status: '', Fmt status]),
           self\<lparr>session := session self @
              [(url self @ USER_LOGIN_ENDPOINT,
                [(''USERNAME'', Raw (PStr (username self))),
                 (''PASSWORD'', Raw (PStr (password self)))])]\<rparr>)"
  using assms by (simp add: login_def Let_def form_post_request_def answering_def)

lemma login_accepted:
  assumes "getitem response ''STATUS'' = Inr status" and "eq_int status 1"
    and "getitem response ''TOKEN'' = Inr tok"
    and "getitem response ''devices'' = Inr (PList ds)"
  shows "login (answering response) self =
          (comprehension Device_from_dict ds,
           self\<lparr>token := tok,
                session := session self @
              [(url self @ USER_LOGIN_ENDPOINT,
                [(''USERNAME'', Raw (PStr (username self))),
                 (''PASSWORD'', Raw (PStr (password self)))])]\<rparr>)"
  using assms by (simp add: login_def Let_def form_post_request_def answering_def)

lemma example_client_fresh: "token example_client = PNone"
  by (simp add: example_client_def NeoHub_init_def)

text \<open>
  C5, as the code has it. On a body whose \<open>STATUS\<close> equals 1 and that holds a \<open>TOKEN\<close> and
  a list of device records that decode, \<open>login\<close> returns the decoded devices and stores the
  token; a later authenticated call is refused as not logged in exactly when that token is
  falsy (the empty string, for one). On a body with any other \<open>STATUS\<close>, \<open>login\<close> fails with
  \<^verbatim>\<open>Login failed with status: {status}\<close> and changes nothing in the client but the
  session's record of the request: the token is the one held before, so on a client that
  held none every later authenticated call is refused as not logged in.
\<close>

theorem login_protocol:
  assumes "getitem response ''STATUS'' = Inr status"
  shows "(eq_int status 1 \<longrightarrow>
            (\<forall>tok ds devs.
               getitem response ''TOKEN'' = Inr tok
               \<and> getitem response ''devices'' = Inr (PList ds)
               \<and> comprehension Device_from_dict ds = Inr devs \<longrightarrow>
                 fst (login (answering response) self) = Inr devs
               \<and> token (snd (login (answering response) self)) = tok
               \<and> (\<forall>pf body device_id.
                    (fst (get_data pf (answering body) (snd (login (answering response) self))
                            device_id) = Inl not_logged_in) = (\<not> truthy tok))))
       \<and> (\<not> eq_int status 1 \<longrightarrow>
            fst (login (answering response) self)
              = Inl (Exception [Lit ''Login failed with status: '', Fmt status])
            \<and> token (snd (login (answering response) self)) = token self
            \<and> snd (login (answering response) self)
                = self\<lparr>session := session (snd (login (answering response) self))\<rparr>
            \<and> (\<not> truthy (token self) \<longrightarrow>
                 (\<forall>pf net device_id.
                    fst (get_data pf net (snd (login (answering response) self)) device_id)
                      = Inl not_logged_in)))"
proof (cases "eq_int status 1")
  case True
  have "fst (login (answering response) self) = Inr devs
        \<and> token (snd (login (answering response) self)) = tok
        \<and> (\<forall>pf body device_id.
              (fst (get_data pf (answering body) (snd (login (answering response) self))
                      device_id) = Inl not_logged_in) = (\<not> truthy tok))"
    if "getitem response ''TOKEN'' = Inr tok" "getitem response ''devices'' = Inr (PList ds)"
       "comprehension Device_from_dict ds = Inr devs" for tok ds devs
    using login_accepted [OF assms True that(1,2), of self] that(3)
    by (simp add: get_data_guard_iff)
  with True show ?thesis by blast
next
  case False
  show ?thesis
    using False login_refused [OF assms False, of self]
    by (simp add: guarded)
qed

text \<open>
  The responses \<^verbatim>\<open>{STATUS: 1, TOKEN: "abc", devices: []}\<close> and \<^verbatim>\<open>{STATUS: 0}\<close> on a
  client that has not logged in.
\<close>

theorem login_protocol_witness:
  "getitem (PDict [(''STATUS'', PInt 1), (''TOKEN'', PStr ''abc''), (''devices'', PList [])])
      ''STATUS'' = Inr (PInt 1)
   \<and> eq_int (PInt 1) 1
   \<and> fst (login (answering (PDict [(''STATUS'', PInt 1), (''TOKEN'', PStr ''abc''),
                                    (''devices'', PList [])])) example_client) = Inr []
   \<and> token (snd (login (answering (PDict [(''STATUS'', PInt 1), (''TOKEN'', PStr ''abc''),
                                    (''devices'', PList [])])) example_client)) = PStr ''abc''
   \<and> fst (get_data plain_decimal (answering zone_response)
        (snd (login (answering (PDict [(''STATUS'', PInt 1), (''TOKEN'', PStr ''abc''),
                                    (''devices'', PList [])])) example_client)) ''dev1'')
       \<noteq> Inl not_logged_in
   \<and> getitem (PDict [(''STATUS'', PInt 0)]) ''STATUS'' = Inr (PInt 0)
   \<and> \<not> eq_int (PInt 0) 1
   \<and> \<not> truthy (token example_client)
   \<and> fst (login (answering (PDict [(''STATUS'', PInt 0)])) example_client)
       = Inl (Exception [Lit ''Login failed with status: '', Fmt (PInt 0)])
   \<and> token (snd (login (answering (PDict [(''STATUS'', PInt 0)])) example_client)) = PNone
   \<and> fst (get_data plain_decimal (answering zone_response)
        (snd (login (answering (PDict [(''STATUS'', PInt 0)])) example_client)) ''dev1'')
       = Inl not_logged_in"
proof -
  have s1: "getitem (PDict [(''STATUS'', PInt 1), (''TOKEN'', PStr ''abc''), (''devices'', PList [])])
      ''STATUS'' = Inr (PInt 1)" by simp
  have s0: "getitem (PDict [(''STATUS'', PInt 0)]) ''STATUS'' = Inr (PInt 0)" by simp
  note ok = login_protocol [OF s1, of example_client]
  note ko = login_protocol [OF s0, of example_client]
  have shape: "getitem (PDict [(''STATUS'', PInt 1), (''TOKEN'', PStr ''abc''), (''devices'', PList [])])
       ''TOKEN'' = Inr (PStr ''abc'')
     \<and> getitem (PDict [(''STATUS'', PInt 1), (''TOKEN'', PStr ''abc''), (''devices'', PList [])])
       ''devices'' = Inr (PList [])
     \<and> comprehension Device_from_dict [] = Inr []" by simp
  have a: "fst (login (answering (PDict [(''STATUS'', PInt 1), (''TOKEN'', PStr ''abc''),
                                    (''devices'', PList [])])) example_client) = Inr []
     \<and> token (snd (login (answering (PDict [(''STATUS'', PInt 1), (''TOKEN'', PStr ''abc''),
                                    (''devices'', PList [])])) example_client)) = PStr ''abc''
     \<and> fst (get_data plain_decimal (answering zone_response)
        (snd (login (answering (PDict [(''STATUS'', PInt 1), (''TOKEN'', PStr ''abc''),
                                    (''devices'', PList [])])) example_client)) ''dev1'')
       \<noteq> Inl not_logged_in"
    using ok shape by simp
  have b: "fst (login (answering (PDict [(''STATUS'', PInt 0)])) example_client)
       = Inl (Exception [Lit ''Login failed with status: '', Fmt (PInt 0)])
     \<and> token (snd (login (answering (PDict [(''STATUS'', PInt 0)])) example_client)) = PNone
     \<and> fst (get_data plain_decimal (answering zone_response)
        (snd (login (answering (PDict [(''STATUS'', PInt 0)])) example_client)) ''dev1'')
       = Inl not_logged_in"
    using ko example_client_fresh by simp
  show ?thesis using a b s1 s0 example_client_fresh by simp
qed

text \<open>
  C5 as the specification states it fails on \<^verbatim>\<open>{STATUS: 1, TOKEN: "", devices: []}\<close>:
  the login succeeds and stores the empty token, and the next authenticated call is
  refused as not logged in.
\<close>

theorem login_empty_token_counterexample:
  "fst (login (answering (PDict [(''STATUS'', PInt 1), (''TOKEN'', PStr ''''),
                                 (''devices'', PList [])])) example_client) = Inr []
   \<and> token (snd (login (answering (PDict [(''STATUS'', PInt 1), (''TOKEN'', PStr ''''),
                                 (''devices'', PList [])])) example_client)) = PStr ''''
   \<and> fst (get_data plain_decimal (answering zone_response)
        (snd (login (answering (PDict [(''STATUS'', PInt 1), (''TOKEN'', PStr ''''),
                                 (''devices'', PList [])])) example_client)) ''dev1'')
       = Inl (Exception [Lit ''Not logged in. Call login() first''])"
proof -
  have "login (answering (PDict [(''STATUS'', PInt 1), (''TOKEN'', PStr ''''),
                                 (''devices'', PList [])])) example_client
        = (Inr [], example_client\<lparr>token := PStr '''',
             session := session example_client @
              [(url example_client @ USER_LOGIN_ENDPOINT,
                [(''USERNAME'', Raw (PStr (username example_client))),
                 (''PASSWORD'', Raw (PStr (password example_client)))])]\<rparr>)"
    by (simp add: login_def Let_def form_post_request_def answering_def)
  then show ?thesis
    by (simp add: get_data_def not_logged_in_def)
qed

section \<open>Commands\<close>

text \<open>
  C9, as the code has it. With a token held, each of \<open>set_temperature\<close>, \<open>set_mode\<close>,
  \<open>set_away_mode\<close> and \<open>get_history\<close> returns exactly when the body has a \<open>STATUS\<close> equal to
  1, and then returns the response; on a body with any other \<open>STATUS\<close> it fails with its own
  words followed by the server's \<open>ERROR\<close> as received, or by \<^verbatim>\<open>Unknown error\<close> when the
  body has no \<open>ERROR\<close>. The status is not part of the exception.
\<close>

theorem commands_surface_server_message:
  assumes "truthy (token self)"
  shows "\<forall>(r, what) \<in> set
            [(fst (set_temperature (answering response) self device_id zone_name temperature),
              ''Failed to set temperature: ''),
             (fst (set_mode (answering response) self device_id zone_name mode),
              ''Failed to set mode: ''),
             (fst (set_away_mode (answering response) self device_id enabled),
              ''Failed to set away mode: ''),
             (fst (get_history (answering response) self device_id zone_name),
              ''Failed to get history: '')].
           ((\<exists>body. r = Inr body)
              = (\<exists>status. getitem response ''STATUS'' = Inr status \<and> eq_int status 1))
         \<and> ((\<exists>body. r = Inr body) \<longrightarrow> r = Inr response)
         \<and> (\<forall>kvs status. response = PDict kvs \<and> map_of kvs ''STATUS'' = Some status
                \<and> \<not> eq_int status 1 \<longrightarrow>
              r = Inl (Exception [Lit what,
                    Fmt (case map_of kvs ''ERROR'' of
                           None \<Rightarrow> PStr ''Unknown error'' | Some m \<Rightarrow> m)]))"
proof -
  define P where "P = (\<lambda>(r :: error + pyval) what.
           ((\<exists>body. r = Inr body)
              = (\<exists>status. getitem response ''STATUS'' = Inr status \<and> eq_int status 1))
         \<and> ((\<exists>body. r = Inr body) \<longrightarrow> r = Inr response)
         \<and> (\<forall>kvs status. response = PDict kvs \<and> map_of kvs ''STATUS'' = Some status
                \<and> \<not> eq_int status 1 \<longrightarrow>
              r = Inl (Exception [Lit what,
                    Fmt (case map_of kvs ''ERROR'' of
                           None \<Rightarrow> PStr ''Unknown error'' | Some m \<Rightarrow> m)])))"
  have c: "P (command_result what response) what" for what
  proof (cases "\<exists>kvs. response = PDict kvs")
    case True
    then obtain kvs where "response = PDict kvs" by blast
    then show ?thesis
      unfolding P_def by (auto simp: command_result_dict split: option.splits)
  next
    case False
    then have "command_result what response = Inl TypeError"
      by (simp add: command_result_not_dict)
    moreover have "getitem response ''STATUS'' = Inl TypeError"
      using False by (cases response) simp_all
    ultimately show ?thesis unfolding P_def using False by simp
  qed
  have "\<forall>(r, what) \<in> set
            [(fst (set_temperature (answering response) self device_id zone_name temperature),
              ''Failed to set temperature: ''),
             (fst (set_mode (answering response) self device_id zone_name mode),
              ''Failed to set mode: ''),
             (fst (set_away_mode (answering response) self device_id enabled),
              ''Failed to set away mode: ''),
             (fst (get_history (answering response) self device_id zone_name),
              ''Failed to get history: '')]. P r what"
    by (simp add: c set_temperature_result [OF assms] set_mode_result [OF assms]
          set_away_mode_result [OF assms] get_history_result [OF assms])
  then show ?thesis unfolding P_def .
qed

text \<open>
  The bodies \<^verbatim>\<open>{STATUS: 0, ERROR: "zone locked"}\<close>, \<^verbatim>\<open>{STATUS: 0}\<close> and \<^verbatim>\<open>{STATUS: 1}\<close>.
\<close>

theorem commands_surface_server_message_witness:
  "truthy (token logged_in_client)
   \<and> fst (set_temperature (answering (PDict [(''STATUS'', PInt 0), (''ERROR'', PStr ''zone locked'')]))
          logged_in_client ''dev1'' ''Hall'' (Finite 21))
       = Inl (Exception [Lit ''Failed to set temperature: '', Fmt (PStr ''zone locked'')])
   \<and> fst (set_mode (answering (PDict [(''STATUS'', PInt 0), (''ERROR'', PStr ''zone locked'')]))
          logged_in_client ''dev1'' ''Hall'' ''heat'')
       = Inl (Exception [Lit ''Failed to set mode: '', Fmt (PStr ''zone locked'')])
   \<and> fst (set_away_mode (answering (PDict [(''STATUS'', PInt 0)])) logged_in_client ''dev1'' True)
       = Inl (Exception [Lit ''Failed to set away mode: '', Fmt (PStr ''Unknown error'')])
   \<and> fst (get_history (answering (PDict [(''STATUS'', PInt 1)])) logged_in_client ''dev1'' ''Hall'')
       = Inr (PDict [(''STATUS'', PInt 1)])"
proof -
  note a = commands_surface_server_message [OF logged_in_truthy,
      of "PDict [(''STATUS'', PInt 0), (''ERROR'', PStr ''zone locked'')]"
         "''dev1''" "''Hall''" "Finite 21" "''heat''" True]
  note b = commands_surface_server_message [OF logged_in_truthy,
      of "PDict [(''STATUS'', PInt 0)]" "''dev1''" "''Hall''" "Finite 21" "''heat''" True]
  note c = commands_surface_server_message [OF logged_in_truthy,
      of "PDict [(''STATUS'', PInt 1)]" "''dev1''" "''Hall''" "Finite 21" "''heat''" True]
  have 1: "fst (set_temperature (answering (PDict [(''STATUS'', PInt 0), (''ERROR'', PStr ''zone locked'')]))
          logged_in_client ''dev1'' ''Hall'' (Finite 21))
       = Inl (Exception [Lit ''Failed to set temperature: '', Fmt (PStr ''zone locked'')])"
    using a by simp
  have 2: "fst (set_mode (answering (PDict [(''STATUS'', PInt 0), (''ERROR'', PStr ''zone locked'')]))
          logged_in_client ''dev1'' ''Hall'' ''heat'')
       = Inl (Exception [Lit ''Failed to set mode: '', Fmt (PStr ''zone locked'')])"
    using a by simp
  have 3: "fst (set_away_mode (answering (PDict [(''STATUS'', PInt 0)])) logged_in_client ''dev1'' True)
       = Inl (Exception [Lit ''Failed to set away mode: '', Fmt (PStr ''Unknown error'')])"
    using b by simp
  have 4: "fst (get_history (answering (PDict [(''STATUS'', PInt 1)])) logged_in_client ''dev1'' ''Hall'')
       = Inr (PDict [(''STATUS'', PInt 1)])"
    using c by auto
  show ?thesis using logged_in_truthy 1 2 3 4 by blast
qed

text \<open>
  C9 as the specification states it asks for the status code in the failure. The
  exception raised on \<^verbatim>\<open>{STATUS: 0, ERROR: "zone locked"}\<close> is the one raised on
  \<^verbatim>\<open>{STATUS: 7, ERROR: "zone locked"}\<close>: it holds the message and no status.
\<close>

theorem command_error_without_status_counterexample:
  "fst (set_temperature (answering (PDict [(''STATUS'', PInt 0), (''ERROR'', PStr ''zone locked'')]))
          logged_in_client ''dev1'' ''Hall'' (Finite 21))
       = Inl (Exception [Lit ''Failed to set temperature: '', Fmt (PStr ''zone locked'')])
   \<and> fst (set_temperature (answering (PDict [(''STATUS'', PInt 7), (''ERROR'', PStr ''zone locked'')]))
          logged_in_client ''dev1'' ''Hall'' (Finite 21))
       = Inl (Exception [Lit ''Failed to set temperature: '', Fmt (PStr ''zone locked'')])"
  by (simp add: set_temperature_result [OF logged_in_truthy] command_result_dict)

end
